theory Spec2Isabelle
  imports Main "HOL-Library.Sublist"
begin

text \<open>
  The offline outbox and its reconciliation pass, \<open>syncNow\<close> of \<open>src/offline/sync.ts\<close>:
  the queued creates, updates and deletes are replayed against the server, phase by
  phase, and the identity map and the local cache are brought up to date. The three
  stores are the fields of a record that each operation returns updated; the server
  is a parameter; a failure caught by a loop is a value.
\<close>

section \<open>JavaScript values\<close>

text \<open>
  The values that reach \<open>normalizeTask\<close> are what the HTTP client hands back as
  \<open>res.data\<close>: JSON, or nothing at all. A number is kept as the text that
  \<open>String()\<close> gives for it; the sync engine never computes with a number of a
  payload or a response, it only prints one when it coerces an id or a title.
\<close>

datatype jsval =
    JUndefined
  | JNull
  | JBool bool
  | JNum string
  | JStr string
  | JArr "jsval list"
  | JObj "(string \<times> jsval) list"

type_synonym jsobj = "(string \<times> jsval) list"

fun joinWith :: "string \<Rightarrow> string list \<Rightarrow> string" where
  "joinWith sep [] = []"
| "joinWith sep [x] = x"
| "joinWith sep (x # y # ys) = x @ sep @ joinWith sep (y # ys)"

text \<open>\<open>String(v)\<close>; \<open>None\<close> is the \<open>TypeError\<close> it throws. An object of a response
  has no method of its own: when it has a property named \<open>toString\<close>, that property
  hides \<open>Object.prototype.toString\<close> and cannot be called, \<open>valueOf\<close> gives back the
  object itself, and the conversion throws; any other object prints as
  \<open>[object Object]\<close>. An array prints its elements separated by commas, with \<open>null\<close>
  and \<open>undefined\<close> elements printed as nothing, and throws when an element does.\<close>

fun jsString :: "jsval \<Rightarrow> string option" where
  "jsString JUndefined = Some ''undefined''"
| "jsString JNull = Some ''null''"
| "jsString (JBool b) = Some (if b then ''true'' else ''false'')"
| "jsString (JNum n) = Some n"
| "jsString (JStr s) = Some s"
| "jsString (JArr xs) =
     map_option (joinWith '','')
       (those (map (\<lambda>v. if v = JUndefined \<or> v = JNull then Some [] else jsString v) xs))"
| "jsString (JObj ps) =
     (if ''toString'' \<in> set (map fst ps) then None else Some ''[object Object]'')"

text \<open>The values on which \<open>String\<close> throws, told by their shape: an object with a
  property named \<open>toString\<close>, and an array that holds such a value.\<close>

fun unprintable :: "jsval \<Rightarrow> bool" where
  "unprintable (JObj ps) = (''toString'' \<in> set (map fst ps))"
| "unprintable (JArr xs) = (\<exists>v\<in>set xs. unprintable v)"
| "unprintable v = False"

text \<open>\<open>o.k\<close> on an object: the value of the property, \<open>undefined\<close> when the object
  has none of that name.\<close>

definition getProp :: "jsobj \<Rightarrow> string \<Rightarrow> jsval" where
  "getProp ps k = (case map_of ps k of None \<Rightarrow> JUndefined | Some v \<Rightarrow> v)"

text \<open>\<open>x?.k\<close> for the property names the engine reads (\<open>task\<close>, \<open>_id\<close>, \<open>id\<close>,
  \<open>title\<close>, \<open>description\<close>, \<open>status\<close>, \<open>clienteId\<close>, \<open>createdAt\<close>): none of them is
  a property of a string, a number, a boolean or an array.\<close>

fun optProp :: "jsval \<Rightarrow> string \<Rightarrow> jsval" where
  "optProp (JObj ps) k = getProp ps k"
| "optProp v k = JUndefined"

text \<open>\<open>a ?? b\<close>.\<close>

definition nullish :: "jsval \<Rightarrow> jsval \<Rightarrow> jsval" where
  "nullish a b = (if a = JUndefined \<or> a = JNull then b else a)"

section \<open>normalizeTask\<close>

text \<open>The object literal that \<open>normalizeTask\<close> returns. \<open>String(...)\<close> makes \<open>_id\<close>
  and \<open>title\<close> strings; the other four fields hold whatever the input held.\<close>

record task =
  task_id :: string
  title :: string
  description :: jsval
  status :: jsval
  task_clienteId :: jsval
  createdAt :: jsval

text \<open>The placeholder title \<open>(sin t\<dots>tulo)\<close>; its sixth character is U+00ED.\<close>

definition sinTitulo :: string where
  "sinTitulo = ''(sin t'' @ [CHR 0xED] @ ''tulo)''"

text \<open>\<open>normalizeTask\<close>; \<open>None\<close> when one of its two calls of \<open>String\<close> throws, the one
  for \<open>_id\<close> first.\<close>

definition normalizeTask :: "jsval \<Rightarrow> task option" where
  "normalizeTask x =
     (case jsString (nullish (optProp x ''_id'') (optProp x ''id'')) of
        None \<Rightarrow> None
      | Some i \<Rightarrow>
          (case jsString (nullish (optProp x ''title'') (JStr sinTitulo)) of
             None \<Rightarrow> None
           | Some t \<Rightarrow>
               Some \<lparr> task_id = i,
                      title = t,
                      description = nullish (optProp x ''description'') (JStr ''''),
                      status =
                        (if optProp x ''status'' = JStr ''Completada'' \<or>
                            optProp x ''status'' = JStr ''En Progreso'' \<or>
                            optProp x ''status'' = JStr ''Pendiente''
                         then optProp x ''status''
                         else JStr ''Pendiente''),
                      task_clienteId = optProp x ''clienteId'',
                      createdAt = optProp x ''createdAt'' \<rparr>))"

text \<open>The same object as a property list, which is what the cache stores.\<close>

definition taskObject :: "task \<Rightarrow> jsobj" where
  "taskObject t =
     [(''_id'', JStr (task_id t)),
      (''title'', JStr (title t)),
      (''description'', description t),
      (''status'', status t),
      (''clienteId'', task_clienteId t),
      (''createdAt'', createdAt t)]"

section \<open>The outbox, the identity map and the local cache\<close>

datatype opKind = Create | Update | Delete

text \<open>A queued operation, as the dashboard enqueues it: \<open>_id\<close> (here \<open>op_id\<close>),
  \<open>op\<close>, \<open>clienteId\<close>, \<open>data\<close> (absent on a delete), \<open>ts\<close>, and the optional
  \<open>serverId\<close> that the delete phase reads.\<close>

record pendingOp =
  op_id :: string
  op :: opKind
  clienteId :: string
  serverId :: "string option"
  data :: "jsobj option"
  ts :: int

datatype request =
    POST string jsobj
  | PUT string jsobj
  | DELETE string

text \<open>What a call of the HTTP client does: it rejects, or it resolves with a response
  whose \<open>data\<close> is the value carried here.\<close>

datatype reply = Rejected | Resolved jsval

text \<open>The effects of a pass that can be seen from outside, in the order in which they
  happen: the log line that opens the body of each loop (kept with the whole record),
  a network call, a dispatched window event. The other log lines are left out.\<close>

datatype event =
    Processing pendingOp
  | Call request
  | Dispatch string

record world =
  outbox :: "pendingOp list"
  mapping :: "string \<rightharpoonup> string"
  cache :: "string \<rightharpoonup> jsobj"
  trace :: "event list"

text \<open>The server is any function of the calls made so far and of the call at hand.\<close>

type_synonym server = "request list \<Rightarrow> request \<Rightarrow> reply"

fun calls :: "event list \<Rightarrow> request list" where
  "calls [] = []"
| "calls (Call r # es) = r # calls es"
| "calls (e # es) = calls es"

fun attempts :: "event list \<Rightarrow> pendingOp list" where
  "attempts [] = []"
| "attempts (Processing p # es) = p # attempts es"
| "attempts (e # es) = attempts es"

definition emit :: "event \<Rightarrow> world \<Rightarrow> world" where
  "emit e w = w\<lparr>trace := trace w @ [e]\<rparr>"

text \<open>The events that a run from \<open>w\<close> to \<open>w'\<close> added.\<close>

definition emitted :: "world \<Rightarrow> world \<Rightarrow> event list" where
  "emitted w w' = drop (length (trace w)) (trace w')"

text \<open>Modelled from the spec: \<open>getOutbox\<close> of \<open>offline/db\<close>, which is not among the
  sources. It returns every stored pending operation.\<close>

definition getOutbox :: "world \<Rightarrow> pendingOp list" where
  "getOutbox w = outbox w"

text \<open>Modelled from the spec: \<open>removePendingOp\<close> of \<open>offline/db\<close>. It deletes the
  record with that id; removing an id that is not stored changes nothing.\<close>

definition removePendingOp :: "string \<Rightarrow> world \<Rightarrow> world" where
  "removePendingOp i w = w\<lparr>outbox := filter (\<lambda>p. op_id p \<noteq> i) (outbox w)\<rparr>"

text \<open>Modelled from the spec: \<open>setMapping\<close> of \<open>offline/db\<close>. It stores the
  association, overwriting an earlier one for the same client id.\<close>

definition setMapping :: "string \<Rightarrow> string \<Rightarrow> world \<Rightarrow> world" where
  "setMapping c s w = w\<lparr>mapping := (mapping w)(c \<mapsto> s)\<rparr>"

text \<open>Modelled from the spec: \<open>getMapping\<close> of \<open>offline/db\<close>. It returns the server
  id, or nothing when there is no association.\<close>

definition getMapping :: "string \<Rightarrow> world \<Rightarrow> string option" where
  "getMapping c w = mapping w c"

text \<open>Modelled from the spec: \<open>putTaskLocal\<close> of \<open>offline/db\<close>. It inserts or
  overwrites by the entity's \<open>_id\<close>, which is a string in every entity that the pass
  puts. The specification gives an entity no other kind of id and does not say what
  becomes of one; here nothing is stored for it.\<close>

definition putTaskLocal :: "jsobj \<Rightarrow> world \<Rightarrow> world" where
  "putTaskLocal t w =
     (case getProp t ''_id'' of
        JStr k \<Rightarrow> w\<lparr>cache := (cache w)(k \<mapsto> t)\<rparr>
      | v \<Rightarrow> w)"

text \<open>Modelled from the spec: \<open>removeTaskLocal\<close> of \<open>offline/db\<close>. It deletes by
  id; nothing happens when the id is absent.\<close>

definition removeTaskLocal :: "string \<Rightarrow> world \<Rightarrow> world" where
  "removeTaskLocal k w = w\<lparr>cache := (cache w)(k := None)\<rparr>"

section \<open>syncNow\<close>

text \<open>\<open>!serverId\<close> for an optional string: absent, or the empty string.\<close>

definition falsy :: "string option \<Rightarrow> bool" where
  "falsy so = (so = None \<or> so = Some [])"

text \<open>The body \<open>{title: op.data.title, description: op.data.description,
  status: op.data.status}\<close> of a create or update request.\<close>

definition requestBody :: "jsobj \<Rightarrow> jsobj" where
  "requestBody d =
     [(''title'', getProp d ''title''),
      (''description'', getProp d ''description''),
      (''status'', getProp d ''status'')]"

text \<open>\<open>{...op.data, _id: serverId}\<close>: the payload's properties, with \<open>_id\<close> replaced
  where the payload has one and added at the end where it has none.\<close>

fun withId :: "jsobj \<Rightarrow> string \<Rightarrow> jsobj" where
  "withId [] s = [(''_id'', JStr s)]"
| "withId ((k, v) # ps) s =
     (if k = ''_id'' then (k, JStr s) # ps else (k, v) # withId ps s)"

text \<open>The body of the first loop. \<open>Inl\<close> is the \<open>catch\<close> branch, which returns from
  \<open>syncNow\<close>; \<open>Inr\<close> goes on to the next record. Reading \<open>op.data.title\<close> of a record
  without \<open>data\<close> throws, and so does \<open>normalizeTask\<close> on some responses; both are
  caught like every other failure.\<close>

definition createOne :: "server \<Rightarrow> pendingOp \<Rightarrow> world \<Rightarrow> world + world" where
  "createOne api p w =
     (let w1 = emit (Processing p) w in
      case data p of
        None \<Rightarrow> Inl w1
      | Some d \<Rightarrow>
          (let req = POST ''/tasks'' (requestBody d);
               w2 = emit (Call req) w1 in
           case api (calls (trace w1)) req of
             Rejected \<Rightarrow> Inl w2
           | Resolved resData \<Rightarrow>
               (case normalizeTask (nullish (optProp resData ''task'') resData) of
                  None \<Rightarrow> Inl w2
                | Some serverTask \<Rightarrow>
                    (let sid = task_id serverTask in
                     if sid = [] \<or> sid = clienteId p then Inl w2
                     else
                       Inr (removePendingOp (op_id p)
                             (putTaskLocal (taskObject serverTask)
                               (removeTaskLocal (clienteId p)
                                 (setMapping (clienteId p) sid w2))))))))"

text \<open>The body of the second loop.\<close>

definition updateOne :: "server \<Rightarrow> pendingOp \<Rightarrow> world \<Rightarrow> world + world" where
  "updateOne api p w =
     (let w1 = emit (Processing p) w;
          sid = getMapping (clienteId p) w1 in
      if falsy sid then Inr (removePendingOp (op_id p) w1)
      else
        case data p of
          None \<Rightarrow> Inl w1
        | Some d \<Rightarrow>
            (let req = PUT (''/tasks/'' @ the sid) (requestBody d);
                 w2 = emit (Call req) w1 in
             case api (calls (trace w1)) req of
               Rejected \<Rightarrow> Inl w2
             | Resolved resData \<Rightarrow>
                 Inr (removePendingOp (op_id p)
                       (putTaskLocal (withId d (the sid)) w2))))"

text \<open>The body of the third loop.\<close>

definition deleteOne :: "server \<Rightarrow> pendingOp \<Rightarrow> world \<Rightarrow> world + world" where
  "deleteOne api p w =
     (let w1 = emit (Processing p) w;
          sid = (if falsy (serverId p) \<and> clienteId p \<noteq> []
                 then getMapping (clienteId p) w1
                 else serverId p) in
      if falsy sid then Inr (removePendingOp (op_id p) w1)
      else
        (let req = DELETE (''/tasks/'' @ the sid);
             w2 = emit (Call req) w1 in
         case api (calls (trace w1)) req of
           Rejected \<Rightarrow> Inl w2
         | Resolved resData \<Rightarrow>
             Inr (removePendingOp (op_id p) (removeTaskLocal (the sid) w2))))"

text \<open>\<open>for (const op of ops) { try { ... } catch { return; } }\<close>\<close>

fun forEach ::
  "(pendingOp \<Rightarrow> world \<Rightarrow> world + world) \<Rightarrow> pendingOp list \<Rightarrow> world \<Rightarrow> world + world" where
  "forEach body [] w = Inr w"
| "forEach body (p # ps) w =
     (case body p w of Inl w' \<Rightarrow> Inl w' | Inr w' \<Rightarrow> forEach body ps w')"

text \<open>The three buckets. \<open>Array.prototype.sort\<close> is stable, and so is \<open>sort_key\<close>.\<close>

definition sortedOps :: "world \<Rightarrow> pendingOp list" where
  "sortedOps w = sort_key ts (getOutbox w)"

definition creates :: "pendingOp list \<Rightarrow> pendingOp list" where
  "creates ops = filter (\<lambda>p. op p = Create) ops"

definition updates :: "pendingOp list \<Rightarrow> pendingOp list" where
  "updates ops = filter (\<lambda>p. op p = Update) ops"

definition deletes :: "pendingOp list \<Rightarrow> pendingOp list" where
  "deletes ops = filter (\<lambda>p. op p = Delete) ops"

text \<open>One pass. \<open>onLine\<close> is \<open>navigator.onLine\<close>, read once at the start.\<close>

definition syncNow :: "server \<Rightarrow> bool \<Rightarrow> world \<Rightarrow> world" where
  "syncNow api onLine w =
     (if \<not> onLine then w
      else
        (let ops = sortedOps w in
         if ops = [] then w
         else
           case forEach (createOne api) (creates ops) w of
             Inl w' \<Rightarrow> w'
           | Inr w1 \<Rightarrow>
               (case forEach (updateOne api) (updates ops) w1 of
                  Inl w' \<Rightarrow> w'
                | Inr w2 \<Rightarrow>
                    (case forEach (deleteOne api) (deletes ops) w2 of
                       Inl w' \<Rightarrow> w'
                     | Inr w3 \<Rightarrow> emit (Dispatch ''sync-complete'') w3))))"

text \<open>The world in which a loop body, or a loop, leaves off, whichever way it ends.\<close>

definition stateOf :: "world + world \<Rightarrow> world" where
  "stateOf r = (case r of Inl w \<Rightarrow> w | Inr w \<Rightarrow> w)"

fun dispatched :: "event list \<Rightarrow> string list" where
  "dispatched [] = []"
| "dispatched (Dispatch n # es) = n # dispatched es"
| "dispatched (e # es) = dispatched es"

text \<open>The phase an event belongs to: 0 for a create record and a POST, 1 for an update
  record and a PUT, 2 for a delete record and a DELETE, 3 for the completion event.\<close>

fun kindPhase :: "opKind \<Rightarrow> nat" where
  "kindPhase Create = 0"
| "kindPhase Update = 1"
| "kindPhase Delete = 2"

fun verbPhase :: "request \<Rightarrow> nat" where
  "verbPhase (POST u b) = 0"
| "verbPhase (PUT u b) = 1"
| "verbPhase (DELETE u) = 2"

fun phase :: "event \<Rightarrow> nat" where
  "phase (Processing p) = kindPhase (op p)"
| "phase (Call r) = verbPhase r"
| "phase (Dispatch n) = 3"

text \<open>The pass reaches the last statement of \<open>syncNow\<close>: it was online, something was
  queued, and none of the three loops returned from its \<open>catch\<close>.\<close>

definition runsToEnd :: "server \<Rightarrow> bool \<Rightarrow> world \<Rightarrow> bool" where
  "runsToEnd api onLine w =
     (onLine \<and> sortedOps w \<noteq> [] \<and>
      (case forEach (createOne api) (creates (sortedOps w)) w of
         Inl w' \<Rightarrow> False
       | Inr w1 \<Rightarrow>
           (case forEach (updateOne api) (updates (sortedOps w)) w1 of
              Inl w' \<Rightarrow> False
            | Inr w2 \<Rightarrow>
                (case forEach (deleteOne api) (deletes (sortedOps w)) w2 of
                   Inl w' \<Rightarrow> False
                 | Inr w3 \<Rightarrow> True))))"

section \<open>A worked pass\<close>

text \<open>The scenario of the specification: a create and an update of the task \<open>tmp-1\<close>,
  and a delete of \<open>tmp-2\<close> that was enqueued first and has no server id.\<close>

definition opCreate :: pendingOp where
  "opCreate =
     \<lparr> op_id = ''r1'', op = Create, clienteId = ''tmp-1'', serverId = None,
       data = Some [(''_id'', JStr ''tmp-1''), (''title'', JStr ''A''),
                    (''description'', JStr []), (''status'', JStr ''Pendiente''),
                    (''clienteId'', JStr ''tmp-1''), (''estimatedTime'', JNum ''30'')],
       ts = 1 \<rparr>"

definition opUpdate :: pendingOp where
  "opUpdate =
     \<lparr> op_id = ''r2'', op = Update, clienteId = ''tmp-1'', serverId = None,
       data = Some [(''_id'', JStr ''tmp-1''), (''title'', JStr ''A2''),
                    (''description'', JStr []), (''status'', JStr ''En Progreso''),
                    (''clienteId'', JStr ''tmp-1''), (''estimatedTime'', JNum ''30'')],
       ts = 2 \<rparr>"

definition opDelete :: pendingOp where
  "opDelete =
     \<lparr> op_id = ''r3'', op = Delete, clienteId = ''tmp-2'', serverId = None,
       data = None, ts = 0 \<rparr>"

definition exWorld :: world where
  "exWorld =
     \<lparr> outbox = [opCreate, opUpdate, opDelete],
       mapping = Map.empty,
       cache = [''tmp-1'' \<mapsto> the (data opCreate)],
       trace = [] \<rparr>"

text \<open>A server that answers a create with the task under \<open>task\<close>, giving it the id
  \<open>srv-9\<close> and echoing the fields it was sent.\<close>

definition exServer :: server where
  "exServer hist req =
     (case req of
        POST u b \<Rightarrow> Resolved (JObj [(''task'', JObj ((''_id'', JStr ''srv-9'') # b))])
      | PUT u b \<Rightarrow> Resolved (JObj b)
      | DELETE u \<Rightarrow> Resolved JNull)"

text \<open>A world with nothing queued: one task, created earlier, is mapped and cached.\<close>

definition idleWorld :: world where
  "idleWorld =
     \<lparr> outbox = [],
       mapping = [''tmp-0'' \<mapsto> ''srv-1''],
       cache = [''srv-1'' \<mapsto> [(''_id'', JStr ''srv-1''), (''title'', JStr ''Z'')]],
       trace = [] \<rparr>"

text \<open>A server that cannot be reached: every call rejects.\<close>

definition downServer :: server where
  "downServer hist req = Rejected"

text \<open>Two queued deletes of a task that is mapped to \<open>srv-1\<close>: the first names the
  server id \<open>srv-5\<close> itself, the second leaves it to the identity map.\<close>

definition opDeleteRef :: pendingOp where
  "opDeleteRef =
     \<lparr> op_id = ''r4'', op = Delete, clienteId = ''tmp-0'', serverId = Some ''srv-5'',
       data = None, ts = 3 \<rparr>"

definition opDeleteMapped :: pendingOp where
  "opDeleteMapped =
     \<lparr> op_id = ''r5'', op = Delete, clienteId = ''tmp-0'', serverId = None,
       data = None, ts = 4 \<rparr>"

definition delWorld :: world where
  "delWorld =
     \<lparr> outbox = [opDeleteRef, opDeleteMapped],
       mapping = [''tmp-0'' \<mapsto> ''srv-1''],
       cache = [''srv-1'' \<mapsto> [(''_id'', JStr ''srv-1''), (''title'', JStr ''Z'')],
                ''srv-5'' \<mapsto> [(''_id'', JStr ''srv-5''), (''title'', JStr ''Y'')]],
       trace = [] \<rparr>"

text \<open>A server that answers a create with an id and nothing else.\<close>

definition idOnlyServer :: server where
  "idOnlyServer hist req = Resolved (JObj [(''_id'', JStr ''srv-9'')])"

text \<open>A server that answers a create with the fields it was sent, and no id.\<close>

definition noIdServer :: server where
  "noIdServer hist req =
     (case req of
        POST u b \<Rightarrow> Resolved (JObj [(''task'', JObj b)])
      | PUT u b \<Rightarrow> Resolved (JObj b)
      | DELETE u \<Rightarrow> Resolved JNull)"

text \<open>Three queued creates, an update and a delete, stored in no particular order, and
  two servers that serve the first create and fail every later call: one rejects, the
  other answers with the id \<open>tmp-3\<close>, which is the second create's own client id.\<close>

definition opCreate2 :: pendingOp where
  "opCreate2 =
     \<lparr> op_id = ''r6'', op = Create, clienteId = ''tmp-3'', serverId = None,
       data = Some [(''_id'', JStr ''tmp-3''), (''title'', JStr ''B''),
                    (''description'', JStr ''b''), (''status'', JStr ''Pendiente'')],
       ts = 5 \<rparr>"

definition opCreate3 :: pendingOp where
  "opCreate3 =
     \<lparr> op_id = ''r7'', op = Create, clienteId = ''tmp-4'', serverId = None,
       data = Some [(''_id'', JStr ''tmp-4''), (''title'', JStr ''C''),
                    (''description'', JStr ''c''), (''status'', JStr ''Completada'')],
       ts = 6 \<rparr>"

definition failWorld :: world where
  "failWorld =
     \<lparr> outbox = [opCreate3, opUpdate, opCreate2, opDelete, opCreate],
       mapping = Map.empty,
       cache = [''tmp-1'' \<mapsto> the (data opCreate), ''tmp-3'' \<mapsto> the (data opCreate2),
                ''tmp-4'' \<mapsto> the (data opCreate3)],
       trace = [] \<rparr>"

definition flakyServer :: server where
  "flakyServer hist req = (if hist = [] then exServer hist req else Rejected)"

definition echoServer :: server where
  "echoServer hist req =
     (if hist = [] then exServer hist req else Resolved (JObj [(''_id'', JStr ''tmp-3'')]))"

text \<open>A server whose answer to a create has an id, and a title that \<open>String\<close> cannot
  print.\<close>

definition oddTitleServer :: server where
  "oddTitleServer hist req =
     Resolved (JObj [(''_id'', JStr ''srv-9''), (''title'', JObj [(''toString'', JNum ''1'')])])"

section \<open>Basic facts\<close>

lemma trace_emit [simp]: "trace (emit e w) = trace w @ [e]"
  and outbox_emit [simp]: "outbox (emit e w) = outbox w"
  and mapping_emit [simp]: "mapping (emit e w) = mapping w"
  and cache_emit [simp]: "cache (emit e w) = cache w"
  by (simp_all add: emit_def)

lemma removePendingOp_fields [simp]:
  "trace (removePendingOp i w) = trace w"
  "outbox (removePendingOp i w) = filter (\<lambda>p. op_id p \<noteq> i) (outbox w)"
  "mapping (removePendingOp i w) = mapping w"
  "cache (removePendingOp i w) = cache w"
  by (simp_all add: removePendingOp_def)

lemma setMapping_fields [simp]:
  "trace (setMapping c s w) = trace w"
  "outbox (setMapping c s w) = outbox w"
  "mapping (setMapping c s w) = (mapping w)(c \<mapsto> s)"
  "cache (setMapping c s w) = cache w"
  by (simp_all add: setMapping_def)

lemma putTaskLocal_fields [simp]:
  "trace (putTaskLocal t w) = trace w"
  "outbox (putTaskLocal t w) = outbox w"
  "mapping (putTaskLocal t w) = mapping w"
  by (simp_all add: putTaskLocal_def split: jsval.splits)

lemma putTaskLocal_cache:
  "getProp t ''_id'' = JStr k \<Longrightarrow> cache (putTaskLocal t w) = (cache w)(k \<mapsto> t)"
  by (simp add: putTaskLocal_def)

lemma taskObject_id [simp]: "getProp (taskObject t) ''_id'' = JStr (task_id t)"
  by (simp add: taskObject_def getProp_def)

lemma withId_id [simp]: "getProp (withId d s) ''_id'' = JStr s"
  by (induction d s rule: withId.induct) (simp_all add: getProp_def)

lemma putTaskLocal_taskObject [simp]:
  "cache (putTaskLocal (taskObject t) w) = (cache w)(task_id t \<mapsto> taskObject t)"
  by (simp add: putTaskLocal_cache)

lemma putTaskLocal_withId [simp]:
  "cache (putTaskLocal (withId d s) w) = (cache w)(s \<mapsto> withId d s)"
  by (simp add: putTaskLocal_cache)

lemma removeTaskLocal_fields [simp]:
  "trace (removeTaskLocal k w) = trace w"
  "outbox (removeTaskLocal k w) = outbox w"
  "mapping (removeTaskLocal k w) = mapping w"
  "cache (removeTaskLocal k w) = (cache w)(k := None)"
  by (simp_all add: removeTaskLocal_def)

lemma getMapping_emit [simp]: "getMapping c (emit e w) = getMapping c w"
  by (simp add: getMapping_def)

lemma calls_append [simp]: "calls (xs @ ys) = calls xs @ calls ys"
  by (induction xs rule: calls.induct) simp_all

lemma attempts_append [simp]: "attempts (xs @ ys) = attempts xs @ attempts ys"
  by (induction xs rule: attempts.induct) simp_all

lemma dispatched_append [simp]: "dispatched (xs @ ys) = dispatched xs @ dispatched ys"
  by (induction xs rule: dispatched.induct) simp_all

lemma stateOf_simps [simp]: "stateOf (Inl w) = w" "stateOf (Inr w) = w"
  by (simp_all add: stateOf_def)

lemma emitted_append [simp]: "trace w' = trace w @ es \<Longrightarrow> emitted w w' = es"
  by (simp add: emitted_def)

text \<open>What one loop body adds to the trace.\<close>

lemma createOne_events:
  "trace (stateOf (createOne api p w)) = trace w @ [Processing p] \<or>
   (\<exists>d. data p = Some d \<and>
      trace (stateOf (createOne api p w)) =
        trace w @ [Processing p, Call (POST ''/tasks'' (requestBody d))])"
  by (simp add: createOne_def Let_def split: option.splits reply.splits)

lemma updateOne_events:
  "trace (stateOf (updateOne api p w)) = trace w @ [Processing p] \<or>
   (\<exists>u b. trace (stateOf (updateOne api p w)) = trace w @ [Processing p, Call (PUT u b)])"
  by (simp add: updateOne_def Let_def split: option.splits reply.splits)

lemma deleteOne_events:
  "trace (stateOf (deleteOne api p w)) = trace w @ [Processing p] \<or>
   (\<exists>u. trace (stateOf (deleteOne api p w)) = trace w @ [Processing p, Call (DELETE u)])"
  by (simp add: deleteOne_def Let_def split: option.splits reply.splits)

lemma createOne_trace:
  "\<exists>cs. trace (stateOf (createOne api p w)) = trace w @ Processing p # map Call cs
        \<and> (\<forall>r\<in>set cs. \<exists>d. data p = Some d \<and> r = POST ''/tasks'' (requestBody d))"
  using createOne_events [of api p w]
proof (elim disjE exE conjE)
  assume "trace (stateOf (createOne api p w)) = trace w @ [Processing p]"
  then show ?thesis by (intro exI[of _ "[]"]) simp
next
  fix d
  assume "data p = Some d"
    and "trace (stateOf (createOne api p w)) =
           trace w @ [Processing p, Call (POST ''/tasks'' (requestBody d))]"
  then show ?thesis by (intro exI[of _ "[POST ''/tasks'' (requestBody d)]"]) simp
qed

lemma updateOne_trace:
  "\<exists>cs. trace (stateOf (updateOne api p w)) = trace w @ Processing p # map Call cs
        \<and> (\<forall>r\<in>set cs. verbPhase r = 1)"
  using updateOne_events [of api p w]
proof (elim disjE exE)
  assume "trace (stateOf (updateOne api p w)) = trace w @ [Processing p]"
  then show ?thesis by (intro exI[of _ "[]"]) simp
next
  fix u b
  assume "trace (stateOf (updateOne api p w)) = trace w @ [Processing p, Call (PUT u b)]"
  then show ?thesis by (intro exI[of _ "[PUT u b]"]) simp
qed

lemma deleteOne_trace:
  "\<exists>cs. trace (stateOf (deleteOne api p w)) = trace w @ Processing p # map Call cs
        \<and> (\<forall>r\<in>set cs. verbPhase r = 2)"
  using deleteOne_events [of api p w]
proof (elim disjE exE)
  assume "trace (stateOf (deleteOne api p w)) = trace w @ [Processing p]"
  then show ?thesis by (intro exI[of _ "[]"]) simp
next
  fix u
  assume "trace (stateOf (deleteOne api p w)) = trace w @ [Processing p, Call (DELETE u)]"
  then show ?thesis by (intro exI[of _ "[DELETE u]"]) simp
qed

text \<open>What a loop adds to the trace.\<close>

lemma forEach_trace:
  assumes step: "\<And>p w. \<exists>cs. trace (stateOf (body p w)) = trace w @ Processing p # map Call cs
                          \<and> (\<forall>r\<in>set cs. Q p r)"
  shows "\<exists>es. trace (stateOf (forEach body ps w)) = trace w @ es
             \<and> prefix (attempts es) ps
             \<and> (\<forall>w'. forEach body ps w = Inr w' \<longrightarrow> attempts es = ps)
             \<and> (\<forall>r\<in>set (calls es). \<exists>p\<in>set ps. Q p r)
             \<and> dispatched es = []"
proof (induction ps arbitrary: w)
  case Nil
  show ?case by (intro exI[of _ "[]"]) simp
next
  case (Cons p ps)
  from step [of p w] obtain cs where
    cs: "trace (stateOf (body p w)) = trace w @ Processing p # map Call cs"
        "\<forall>r\<in>set cs. Q p r"
    by blast
  have A: "attempts (map Call cs) = []" by (induction cs) simp_all
  have C: "calls (map Call cs) = cs" by (induction cs) simp_all
  have D: "dispatched (map Call cs) = []" by (induction cs) simp_all
  show ?case
  proof (cases "body p w")
    case (Inl w')
    then have "trace (stateOf (forEach body (p # ps) w)) = trace w @ (Processing p # map Call cs)"
      using cs(1) by simp
    moreover have "\<forall>w''. forEach body (p # ps) w \<noteq> Inr w''" using Inl by simp
    ultimately show ?thesis
      using cs(2) A C D by (intro exI[of _ "Processing p # map Call cs"]) simp
  next
    case (Inr w')
    from Cons.IH [of w'] obtain es where
      es: "trace (stateOf (forEach body ps w')) = trace w' @ es"
          "prefix (attempts es) ps"
          "\<forall>w''. forEach body ps w' = Inr w'' \<longrightarrow> attempts es = ps"
          "\<forall>r\<in>set (calls es). \<exists>p\<in>set ps. Q p r"
          "dispatched es = []"
      by blast
    have w': "trace w' = trace w @ Processing p # map Call cs"
      using cs(1) Inr by simp
    have "trace (stateOf (forEach body (p # ps) w)) = trace w @ (Processing p # map Call cs @ es)"
      using Inr es(1) w' by simp
    then show ?thesis
      using es(2-5) cs(2) A C D Inr
      by (intro exI[of _ "Processing p # map Call cs @ es"]) auto
  qed
qed


lemma forEach_append:
  "forEach body (xs @ ys) w =
     (case forEach body xs w of Inl w' \<Rightarrow> Inl w' | Inr w' \<Rightarrow> forEach body ys w')"
  by (induction xs arbitrary: w) (simp_all split: sum.splits)

lemma phase_constant:
  assumes "\<forall>p\<in>set (attempts es). kindPhase (op p) = k"
    and "\<forall>r\<in>set (calls es). verbPhase r = k"
    and "dispatched es = []"
  shows "\<forall>e\<in>set es. phase e = k"
  using assms
proof (induction es)
  case Nil
  show ?case by simp
next
  case (Cons e es)
  then show ?case by (cases e) simp_all
qed

lemma sorted_constant: "\<forall>x\<in>set xs. f x = (k::nat) \<Longrightarrow> sorted (map f xs)"
  by (induction xs) simp_all

lemma bucket_kind:
  "\<forall>p\<in>set (creates ops). kindPhase (op p) = 0"
  "\<forall>p\<in>set (updates ops). kindPhase (op p) = 1"
  "\<forall>p\<in>set (deletes ops). kindPhase (op p) = 2"
  by (simp_all add: creates_def updates_def deletes_def)

lemma bucket_sorted:
  "sorted (map ts (creates (sortedOps w)))"
  "sorted (map ts (updates (sortedOps w)))"
  "sorted (map ts (deletes (sortedOps w)))"
  by (simp_all add: creates_def updates_def deletes_def sortedOps_def sorted_filter)

text \<open>The trace of a pass, phase by phase.\<close>

lemma syncNow_shape:
  "\<exists>es1 es2 es3 fin.
     trace (syncNow api onLine w) = trace w @ es1 @ es2 @ es3 @ fin
     \<and> prefix (attempts es1) (creates (sortedOps w))
     \<and> (\<forall>r\<in>set (calls es1). \<exists>p\<in>set (creates (sortedOps w)).
            \<exists>d. data p = Some d \<and> r = POST ''/tasks'' (requestBody d))
     \<and> dispatched es1 = []
     \<and> prefix (attempts es2) (updates (sortedOps w))
     \<and> (\<forall>r\<in>set (calls es2). verbPhase r = 1) \<and> dispatched es2 = []
     \<and> prefix (attempts es3) (deletes (sortedOps w))
     \<and> (\<forall>r\<in>set (calls es3). verbPhase r = 2) \<and> dispatched es3 = []
     \<and> (es2 @ es3 @ fin \<noteq> [] \<longrightarrow> attempts es1 = creates (sortedOps w))
     \<and> (es3 @ fin \<noteq> [] \<longrightarrow> attempts es2 = updates (sortedOps w))
     \<and> (fin \<noteq> [] \<longrightarrow> attempts es3 = deletes (sortedOps w))
     \<and> fin = (if runsToEnd api onLine w then [Dispatch ''sync-complete''] else [])"
  (is "\<exists>es1 es2 es3 fin. ?P es1 es2 es3 fin")
proof (cases "onLine \<and> sortedOps w \<noteq> []")
  case False
  then have "syncNow api onLine w = w" by (auto simp add: syncNow_def)
  moreover have "\<not> runsToEnd api onLine w" using False by (auto simp add: runsToEnd_def)
  ultimately have "?P [] [] [] []" by simp
  then show ?thesis by blast
next
  case True
  let ?ops = "sortedOps w"
  from forEach_trace [where body = "createOne api" and ps = "creates ?ops" and w = w
      and Q = "\<lambda>p r. \<exists>d. data p = Some d \<and> r = POST ''/tasks'' (requestBody d)",
      OF createOne_trace]
  obtain es1 where
    es1: "trace (stateOf (forEach (createOne api) (creates ?ops) w)) = trace w @ es1"
         "prefix (attempts es1) (creates ?ops)"
         "\<forall>w'. forEach (createOne api) (creates ?ops) w = Inr w' \<longrightarrow> attempts es1 = creates ?ops"
         "\<forall>r\<in>set (calls es1). \<exists>p\<in>set (creates ?ops).
            \<exists>d. data p = Some d \<and> r = POST ''/tasks'' (requestBody d)"
         "dispatched es1 = []"
    by blast
  show ?thesis
  proof (cases "forEach (createOne api) (creates ?ops) w")
    case (Inl w')
    then have "syncNow api onLine w = w'" using True by (simp add: syncNow_def)
    moreover have "\<not> runsToEnd api onLine w" using Inl by (simp add: runsToEnd_def)
    ultimately have "?P es1 [] [] []" using es1 Inl by simp
    then show ?thesis by blast
  next
    case c: (Inr w1)
    from forEach_trace [where body = "updateOne api" and ps = "updates ?ops" and w = w1
        and Q = "\<lambda>p r. verbPhase r = 1", OF updateOne_trace]
    obtain es2 where
      es2: "trace (stateOf (forEach (updateOne api) (updates ?ops) w1)) = trace w1 @ es2"
           "prefix (attempts es2) (updates ?ops)"
           "\<forall>w'. forEach (updateOne api) (updates ?ops) w1 = Inr w' \<longrightarrow> attempts es2 = updates ?ops"
           "\<forall>r\<in>set (calls es2). verbPhase r = 1" "dispatched es2 = []"
      by blast
    have w1: "trace w1 = trace w @ es1" using es1(1) c by simp
    have a1: "attempts es1 = creates ?ops" using es1(3) c by simp
    show ?thesis
    proof (cases "forEach (updateOne api) (updates ?ops) w1")
      case (Inl w')
      then have "syncNow api onLine w = w'" using True c by (simp add: syncNow_def)
      moreover have "\<not> runsToEnd api onLine w" using c Inl by (simp add: runsToEnd_def)
      ultimately have "?P es1 es2 [] []" using es1 es2 Inl w1 a1 by simp
      then show ?thesis by blast
    next
      case u: (Inr w2)
      from forEach_trace [where body = "deleteOne api" and ps = "deletes ?ops" and w = w2
          and Q = "\<lambda>p r. verbPhase r = 2", OF deleteOne_trace]
      obtain es3 where
        es3: "trace (stateOf (forEach (deleteOne api) (deletes ?ops) w2)) = trace w2 @ es3"
             "prefix (attempts es3) (deletes ?ops)"
             "\<forall>w'. forEach (deleteOne api) (deletes ?ops) w2 = Inr w' \<longrightarrow> attempts es3 = deletes ?ops"
             "\<forall>r\<in>set (calls es3). verbPhase r = 2" "dispatched es3 = []"
        by blast
      have w2: "trace w2 = trace w @ es1 @ es2" using es2(1) u w1 by simp
      have a2: "attempts es2 = updates ?ops" using es2(3) u by simp
      show ?thesis
      proof (cases "forEach (deleteOne api) (deletes ?ops) w2")
        case (Inl w')
        then have "syncNow api onLine w = w'" using True c u by (simp add: syncNow_def)
        moreover have "\<not> runsToEnd api onLine w" using c u Inl by (simp add: runsToEnd_def)
        ultimately have "?P es1 es2 es3 []" using es1 es2 es3 Inl w2 a1 a2 by simp
        then show ?thesis by blast
      next
        case d: (Inr w3)
        then have "syncNow api onLine w = emit (Dispatch ''sync-complete'') w3"
          using True c u by (simp add: syncNow_def)
        moreover have "attempts es3 = deletes ?ops" using es3(3) d by simp
        moreover have "runsToEnd api onLine w" using True c u d by (simp add: runsToEnd_def)
        ultimately have "?P es1 es2 es3 [Dispatch ''sync-complete'']"
          using es1 es2 es3 d w2 a1 a2 by simp
        then show ?thesis by blast
      qed
    qed
  qed
qed

section \<open>The order of the phases\<close>

lemma exWorld_run:
  "trace (syncNow exServer True exWorld) =
     [Processing opCreate,
      Call (POST ''/tasks'' [(''title'', JStr ''A''), (''description'', JStr []),
                             (''status'', JStr ''Pendiente'')]),
      Processing opUpdate,
      Call (PUT ''/tasks/srv-9'' [(''title'', JStr ''A2''), (''description'', JStr []),
                                  (''status'', JStr ''En Progreso'')]),
      Processing opDelete,
      Dispatch ''sync-complete'']"
  by code_simp

lemma exWorld_buckets:
  "creates (sortedOps exWorld) = [opCreate]"
  "updates (sortedOps exWorld) = [opUpdate]"
  "deletes (sortedOps exWorld) = [opDelete]"
  by code_simp+

text \<open>
  C1. In the events of a pass every create record and every POST comes before every
  update record and every PUT, which come before every delete record and every DELETE
  (and the completion event comes last): the phases of the events never decrease. The
  records are taken up in the order of the three buckets, creates, then updates, then
  deletes, of the outbox sorted by \<open>ts\<close>, and each bucket is in ascending \<open>ts\<close>; a
  pass that stops early has taken up a prefix of that sequence.
\<close>

theorem syncNow_phase_order:
  "sorted (map phase (emitted w (syncNow api onLine w)))
   \<and> prefix (attempts (emitted w (syncNow api onLine w)))
        (creates (sortedOps w) @ updates (sortedOps w) @ deletes (sortedOps w))
   \<and> sorted (map ts (creates (sortedOps w)))
   \<and> sorted (map ts (updates (sortedOps w)))
   \<and> sorted (map ts (deletes (sortedOps w)))"
proof -
  let ?ops = "sortedOps w"
  from syncNow_shape [of api onLine w] obtain es1 es2 es3 fin where
    tr: "trace (syncNow api onLine w) = trace w @ es1 @ es2 @ es3 @ fin"
    and p1: "prefix (attempts es1) (creates ?ops)"
    and c1': "\<forall>r\<in>set (calls es1). \<exists>p\<in>set (creates ?ops).
            \<exists>d. data p = Some d \<and> r = POST ''/tasks'' (requestBody d)"
    and d1: "dispatched es1 = []"
    and p2: "prefix (attempts es2) (updates ?ops)"
    and c2: "\<forall>r\<in>set (calls es2). verbPhase r = 1" and d2: "dispatched es2 = []"
    and p3: "prefix (attempts es3) (deletes ?ops)"
    and c3: "\<forall>r\<in>set (calls es3). verbPhase r = 2" and d3: "dispatched es3 = []"
    and f1: "es2 @ es3 @ fin \<noteq> [] \<longrightarrow> attempts es1 = creates ?ops"
    and f2: "es3 @ fin \<noteq> [] \<longrightarrow> attempts es2 = updates ?ops"
    and f3: "fin \<noteq> [] \<longrightarrow> attempts es3 = deletes ?ops"
    and fin': "fin = (if runsToEnd api onLine w then [Dispatch ''sync-complete''] else [])"
    by blast
  have c1: "\<forall>r\<in>set (calls es1). verbPhase r = 0" using c1' by fastforce
  have fin: "fin = [] \<or> fin = [Dispatch ''sync-complete'']" using fin' by simp
  have em: "emitted w (syncNow api onLine w) = es1 @ es2 @ es3 @ fin"
    using tr by simp
  have k1: "\<forall>p\<in>set (attempts es1). kindPhase (op p) = 0"
    using p1 bucket_kind(1) [of ?ops] set_mono_prefix by blast
  have k2: "\<forall>p\<in>set (attempts es2). kindPhase (op p) = 1"
    using p2 bucket_kind(2) [of ?ops] set_mono_prefix by blast
  have k3: "\<forall>p\<in>set (attempts es3). kindPhase (op p) = 2"
    using p3 bucket_kind(3) [of ?ops] set_mono_prefix by blast
  have ph1: "\<forall>e\<in>set es1. phase e = 0" using phase_constant [OF k1 c1 d1] .
  have ph2: "\<forall>e\<in>set es2. phase e = 1" using phase_constant [OF k2 c2 d2] .
  have ph3: "\<forall>e\<in>set es3. phase e = 2" using phase_constant [OF k3 c3 d3] .
  have ph4: "\<forall>e\<in>set fin. phase e = 3" using fin by auto
  have s1: "sorted (map phase es1)" using ph1 by (rule sorted_constant)
  have s2: "sorted (map phase es2)" using ph2 by (rule sorted_constant)
  have s3: "sorted (map phase es3)" using ph3 by (rule sorted_constant)
  have s4: "sorted (map phase fin)" using ph4 by (rule sorted_constant)
  have "sorted (map phase (es1 @ es2 @ es3 @ fin))"
    using s1 s2 s3 s4 ph1 ph2 ph3 ph4 by (auto simp add: sorted_append)
  moreover have "prefix (attempts (es1 @ es2 @ es3 @ fin))
        (creates ?ops @ updates ?ops @ deletes ?ops)"
  proof (cases "es2 @ es3 @ fin = []")
    case True
    then show ?thesis using p1 by simp
  next
    case n1: False
    then have a1: "attempts es1 = creates ?ops" using f1 by simp
    show ?thesis
    proof (cases "es3 @ fin = []")
      case True
      then show ?thesis using a1 p2 by simp
    next
      case n2: False
      then have a2: "attempts es2 = updates ?ops" using f2 by simp
      show ?thesis
      proof (cases "fin = []")
        case True
        then show ?thesis using a1 a2 p3 by simp
      next
        case False
        then have "attempts es3 = deletes ?ops" using f3 by simp
        moreover have "attempts fin = []" using fin by auto
        ultimately show ?thesis using a1 a2 by simp
      qed
    qed
  qed
  ultimately show ?thesis using em bucket_sorted [of w] by simp
qed

theorem syncNow_phase_order_witness:
  "emitted exWorld (syncNow exServer True exWorld) =
     [Processing opCreate,
      Call (POST ''/tasks'' [(''title'', JStr ''A''), (''description'', JStr []),
                             (''status'', JStr ''Pendiente'')]),
      Processing opUpdate,
      Call (PUT ''/tasks/srv-9'' [(''title'', JStr ''A2''), (''description'', JStr []),
                                  (''status'', JStr ''En Progreso'')]),
      Processing opDelete,
      Dispatch ''sync-complete'']
   \<and> map ts [opCreate, opUpdate, opDelete] = [1, 2, 0]
   \<and> sorted (map phase (emitted exWorld (syncNow exServer True exWorld)))
   \<and> prefix (attempts (emitted exWorld (syncNow exServer True exWorld)))
        ([opCreate] @ [opUpdate] @ [opDelete])"
proof -
  have e: "emitted exWorld (syncNow exServer True exWorld) = trace (syncNow exServer True exWorld)"
    by (simp add: emitted_def exWorld_def)
  have t: "map ts [opCreate, opUpdate, opDelete] = [1, 2, 0]"
    by (simp add: opCreate_def opUpdate_def opDelete_def)
  show ?thesis
    using syncNow_phase_order [of exWorld exServer True] e t
    by (simp add: exWorld_buckets exWorld_run)
qed

section \<open>A create that succeeds\<close>

text \<open>
  The claim C2 as it is worded, that the entity cached under the server id has the
  fields of the submitted payload, fails: the record \<open>opCreate\<close> submits the title
  \<open>A\<close>, the server answers with an id and nothing else, and the entity cached under
  \<open>srv-9\<close> has the placeholder title.
\<close>

theorem create_caches_response_not_payload:
  "getProp (the (data opCreate)) ''title'' = JStr ''A''
   \<and> \<not> isl (createOne idOnlyServer opCreate exWorld)
   \<and> getMapping ''tmp-1'' (stateOf (createOne idOnlyServer opCreate exWorld)) = Some ''srv-9''
   \<and> cache (stateOf (createOne idOnlyServer opCreate exWorld)) ''srv-9'' =
       Some [(''_id'', JStr ''srv-9''), (''title'', JStr sinTitulo),
             (''description'', JStr []), (''status'', JStr ''Pendiente''),
             (''clienteId'', JUndefined), (''createdAt'', JUndefined)]
   \<and> JStr sinTitulo \<noteq> JStr ''A''"
  by code_simp

text \<open>The one way through the body of the create loop that does not end in the
  \<open>catch\<close>.\<close>

lemma createOne_Inr:
  assumes "data p = Some d"
    and "api (calls (trace w)) (POST ''/tasks'' (requestBody d)) = Resolved r"
    and "normalizeTask (nullish (optProp r ''task'') r) = Some t"
    and "task_id t \<noteq> []"
    and "task_id t \<noteq> clienteId p"
  shows "createOne api p w =
      Inr (removePendingOp (op_id p)
            (putTaskLocal (taskObject t)
              (removeTaskLocal (clienteId p)
                (setMapping (clienteId p) (task_id t)
                  (emit (Call (POST ''/tasks'' (requestBody d))) (emit (Processing p) w))))))"
  using assms by (simp add: createOne_def Let_def)

text \<open>A response on which \<open>normalizeTask\<close> throws ends the create in the \<open>catch\<close>, with
  the call made and no store changed, whatever id the response carries.\<close>

lemma createOne_throws:
  assumes "data p = Some d"
    and "api (calls (trace w)) (POST ''/tasks'' (requestBody d)) = Resolved r"
    and "normalizeTask (nullish (optProp r ''task'') r) = None"
  shows "createOne api p w =
      Inl (emit (Call (POST ''/tasks'' (requestBody d))) (emit (Processing p) w))"
  using assms by (simp add: createOne_def Let_def)

text \<open>
  C2, amended. Let the server answer the create of a record with client id \<open>C\<close> with
  a response that \<open>normalizeTask\<close> turns into a task \<open>t\<close> (it does not throw), whose
  id \<open>S\<close> is not empty and is not \<open>C\<close>. Then the record succeeds, and after it the
  identity map gives \<open>S\<close> for \<open>C\<close>, the cache has nothing under \<open>C\<close>, it has under \<open>S\<close>
  the task \<open>t\<close>, that is the normalised response of the server, whose \<open>_id\<close> is \<open>S\<close>,
  and the record is no longer in the outbox, which has lost nothing else.
\<close>

theorem create_success:
  assumes "data p = Some d"
    and "api (calls (trace w)) (POST ''/tasks'' (requestBody d)) = Resolved r"
    and "normalizeTask (nullish (optProp r ''task'') r) = Some t"
    and "S = task_id t"
    and "S \<noteq> []"
    and "S \<noteq> clienteId p"
  shows "\<exists>w'. createOne api p w = Inr w'
      \<and> getMapping (clienteId p) w' = Some S
      \<and> cache w' (clienteId p) = None
      \<and> cache w' S = Some (taskObject t)
      \<and> getProp (taskObject t) ''_id'' = JStr S
      \<and> (\<forall>q\<in>set (outbox w'). op_id q \<noteq> op_id p)
      \<and> outbox w' = filter (\<lambda>q. op_id q \<noteq> op_id p) (outbox w)"
proof -
  let ?w' = "removePendingOp (op_id p)
            (putTaskLocal (taskObject t)
              (removeTaskLocal (clienteId p)
                (setMapping (clienteId p) (task_id t)
                  (emit (Call (POST ''/tasks'' (requestBody d))) (emit (Processing p) w)))))"
  have run: "createOne api p w = Inr ?w'"
    using assms by (intro createOne_Inr) simp_all
  have m: "getMapping (clienteId p) ?w' = Some S"
    using assms(4) by (simp add: getMapping_def)
  have c1: "cache ?w' (clienteId p) = None"
    using assms(4,6) by simp
  have c2: "cache ?w' S = Some (taskObject t)"
    using assms(4) by simp
  have i: "getProp (taskObject t) ''_id'' = JStr S"
    using assms(4) by simp
  have o: "outbox ?w' = filter (\<lambda>q. op_id q \<noteq> op_id p) (outbox w)"
    by simp
  have o': "\<forall>q\<in>set (outbox ?w'). op_id q \<noteq> op_id p"
    by simp
  show ?thesis
    using run m c1 c2 i o o' by blast
qed

theorem create_success_witness:
  "data opCreate = Some [(''_id'', JStr ''tmp-1''), (''title'', JStr ''A''),
                    (''description'', JStr []), (''status'', JStr ''Pendiente''),
                    (''clienteId'', JStr ''tmp-1''), (''estimatedTime'', JNum ''30'')]
   \<and> getMapping ''tmp-1'' (stateOf (createOne exServer opCreate exWorld)) = Some ''srv-9''
   \<and> cache (stateOf (createOne exServer opCreate exWorld)) ''tmp-1'' = None
   \<and> cache (stateOf (createOne exServer opCreate exWorld)) ''srv-9'' =
       Some [(''_id'', JStr ''srv-9''), (''title'', JStr ''A''),
             (''description'', JStr []), (''status'', JStr ''Pendiente''),
             (''clienteId'', JUndefined), (''createdAt'', JUndefined)]
   \<and> outbox (stateOf (createOne exServer opCreate exWorld)) = [opUpdate, opDelete]"
proof -
  let ?d = "[(''_id'', JStr ''tmp-1''), (''title'', JStr ''A''),
                    (''description'', JStr []), (''status'', JStr ''Pendiente''),
                    (''clienteId'', JStr ''tmp-1''), (''estimatedTime'', JNum ''30'')]"
  let ?r = "JObj [(''task'', JObj ((''_id'', JStr ''srv-9'') # requestBody ?d))]"
  let ?t = "\<lparr> task_id = ''srv-9'', title = ''A'', description = JStr [],
              status = JStr ''Pendiente'', task_clienteId = JUndefined,
              createdAt = JUndefined \<rparr>"
  have d: "data opCreate = Some ?d" by (simp add: opCreate_def)
  have a: "exServer (calls (trace exWorld)) (POST ''/tasks'' (requestBody ?d)) = Resolved ?r"
    by (simp add: exServer_def)
  have t: "normalizeTask (nullish (optProp ?r ''task'') ?r) = Some ?t"
    by (simp add: normalizeTask_def nullish_def getProp_def requestBody_def)
  have S: "''srv-9'' = task_id ?t" by simp
  have n: "''srv-9'' \<noteq> []" "''srv-9'' \<noteq> clienteId opCreate"
    by (simp_all add: opCreate_def)
  have o: "taskObject ?t =
      [(''_id'', JStr ''srv-9''), (''title'', JStr ''A''),
             (''description'', JStr []), (''status'', JStr ''Pendiente''),
             (''clienteId'', JUndefined), (''createdAt'', JUndefined)]"
    by (simp add: taskObject_def)
  have c: "clienteId opCreate = ''tmp-1''" "op_id opCreate = ''r1''"
    by (simp_all add: opCreate_def)
  have f: "filter (\<lambda>q. op_id q \<noteq> ''r1'') (outbox exWorld) = [opUpdate, opDelete]"
    by (simp add: exWorld_def opCreate_def opUpdate_def opDelete_def)
  from create_success [where api = exServer and w = exWorld and p = opCreate,
      OF d a t S n]
  obtain w' where
    w': "createOne exServer opCreate exWorld = Inr w'"
      "getMapping (clienteId opCreate) w' = Some ''srv-9''"
      "cache w' (clienteId opCreate) = None"
      "cache w' ''srv-9'' = Some (taskObject ?t)"
      "outbox w' = filter (\<lambda>q. op_id q \<noteq> op_id opCreate) (outbox exWorld)"
    by blast
  show ?thesis
    using w' d o c f by simp
qed

text \<open>The response \<open>{_id: "srv-9", title: {toString: 1}}\<close> carries a good id, and the
  create still fails on it: \<open>String(title)\<close> throws inside \<open>normalizeTask\<close>, the loop
  returns from its \<open>catch\<close>, and nothing is mapped, cached or removed.\<close>

lemma createOne_odd_title:
  "normalizeTask (JObj [(''_id'', JStr ''srv-9''), (''title'', JObj [(''toString'', JNum ''1'')])])
     = None"
  "isl (createOne oddTitleServer opCreate exWorld)"
  "getMapping ''tmp-1'' (stateOf (createOne oddTitleServer opCreate exWorld)) = None"
  "cache (stateOf (createOne oddTitleServer opCreate exWorld)) ''srv-9'' = None"
  "cache (stateOf (createOne oddTitleServer opCreate exWorld)) ''tmp-1'' = Some (the (data opCreate))"
  "outbox (stateOf (createOne oddTitleServer opCreate exWorld)) = [opCreate, opUpdate, opDelete]"
  "dispatched (trace (syncNow oddTitleServer True exWorld)) = []"
  by code_simp+

section \<open>A create that fails\<close>

text \<open>The ways in which the body of the create loop ends in its \<open>catch\<close>: the record
  has no payload to read, the call rejects, \<open>normalizeTask\<close> throws on the response,
  or the id of the response is empty or is the record's own client id.\<close>

lemma createOne_fails_iff:
  "isl (createOne api p w) \<longleftrightarrow>
     data p = None \<or>
     (\<exists>d. data p = Some d \<and>
        (api (calls (trace w)) (POST ''/tasks'' (requestBody d)) = Rejected \<or>
         (\<exists>r. api (calls (trace w)) (POST ''/tasks'' (requestBody d)) = Resolved r \<and>
            (normalizeTask (nullish (optProp r ''task'') r) = None \<or>
             (\<exists>t. normalizeTask (nullish (optProp r ''task'') r) = Some t \<and>
                  (task_id t = [] \<or> task_id t = clienteId p))))))"
  by (auto simp add: createOne_def Let_def split: option.splits reply.splits)

lemma createOne_Inl_stores:
  "createOne api p w = Inl w' \<Longrightarrow>
     outbox w' = outbox w \<and> mapping w' = mapping w \<and> cache w' = cache w"
  by (auto simp add: createOne_def Let_def split: option.splits reply.splits if_splits)

lemma createOne_Inr_outbox:
  "createOne api p w = Inr w' \<Longrightarrow> outbox w' = filter (\<lambda>q. op_id q \<noteq> op_id p) (outbox w)"
  by (auto simp add: createOne_def Let_def split: option.splits reply.splits if_splits)

lemma forEach_create_outbox:
  "forEach (createOne api) ps w = Inr w' \<Longrightarrow>
     outbox w' = filter (\<lambda>q. op_id q \<notin> op_id ` set ps) (outbox w)"
proof (induction ps arbitrary: w)
  case Nil
  then show ?case by simp
next
  case (Cons p ps)
  from Cons.prems obtain v where
    v: "createOne api p w = Inr v" "forEach (createOne api) ps v = Inr w'"
    by (auto split: sum.splits)
  have "outbox w' = filter (\<lambda>q. op_id q \<notin> op_id ` set ps) (outbox v)"
    using Cons.IH [OF v(2)] .
  also have "outbox v = filter (\<lambda>q. op_id q \<noteq> op_id p) (outbox w)"
    using createOne_Inr_outbox [OF v(1)] .
  finally show ?case by (auto intro: filter_cong)
qed

lemma not_isl_stateOf: "\<not> isl x \<Longrightarrow> x = Inr (stateOf x)"
  by (cases x) simp_all

lemma isl_stateOf: "isl x \<Longrightarrow> x = Inl (stateOf x)"
  by (cases x) simp_all

lemma failWorld_creates:
  "creates (sortedOps failWorld) = [] @ opCreate # [opCreate2, opCreate3]"
  "creates (sortedOps failWorld) = [opCreate] @ opCreate2 # [opCreate3]"
  "updates (sortedOps failWorld) = [opUpdate]"
  "deletes (sortedOps failWorld) = [opDelete]"
  "distinct (map op_id (outbox failWorld))"
  by code_simp+

text \<open>
  C3. Let the create records of the outbox, in ascending \<open>ts\<close>, be \<open>pre\<close>, then \<open>c\<close>,
  then \<open>post\<close>; let the records of \<open>pre\<close> succeed and \<open>c\<close> fail, for whatever reason.
  Then the pass ends in the state in which \<open>c\<close> failed. The records it took up are
  those of \<open>pre\<close> and \<open>c\<close>, and no other: none of \<open>post\<close>, no update, no delete. It
  made no call but POSTs and dispatched nothing. The outbox has lost the records of
  \<open>pre\<close> and nothing else, so it still holds \<open>c\<close>, \<open>post\<close>, every update and every
  delete; the failed record changed neither the identity map nor the cache. (Record
  ids are unique in the outbox, which is keyed by them.)
\<close>

theorem create_fail_stop:
  assumes on: "onLine"
    and cs: "creates (sortedOps w) = pre @ c # post"
    and pre: "forEach (createOne api) pre w = Inr w1"
    and fail: "createOne api c w1 = Inl w2"
    and ids: "distinct (map op_id (outbox w))"
  shows "syncNow api onLine w = w2
    \<and> attempts (emitted w w2) = pre @ [c]
    \<and> (\<forall>r\<in>set (calls (emitted w w2)). verbPhase r = 0)
    \<and> dispatched (emitted w w2) = []
    \<and> outbox w2 = filter (\<lambda>q. q \<notin> set pre) (outbox w)
    \<and> c \<in> set (outbox w2)
    \<and> set post \<subseteq> set (outbox w2)
    \<and> set (updates (sortedOps w)) \<subseteq> set (outbox w2)
    \<and> set (deletes (sortedOps w)) \<subseteq> set (outbox w2)
    \<and> mapping w2 = mapping w1
    \<and> cache w2 = cache w1"
proof -
  have ne: "sortedOps w \<noteq> []" using cs by (auto simp add: creates_def)
  have loop: "forEach (createOne api) (creates (sortedOps w)) w = Inl w2"
    using cs pre fail by (simp add: forEach_append)
  have run: "syncNow api onLine w = w2"
    using on ne loop by (simp add: syncNow_def)
  \<comment> \<open>the trace\<close>
  from forEach_trace [where body = "createOne api" and ps = pre and w = w
      and Q = "\<lambda>p r. \<exists>d. data p = Some d \<and> r = POST ''/tasks'' (requestBody d)",
      OF createOne_trace]
  obtain es where
    es: "trace (stateOf (forEach (createOne api) pre w)) = trace w @ es"
        "\<forall>w'. forEach (createOne api) pre w = Inr w' \<longrightarrow> attempts es = pre"
        "\<forall>r\<in>set (calls es). \<exists>p\<in>set pre.
            \<exists>d. data p = Some d \<and> r = POST ''/tasks'' (requestBody d)"
        "dispatched es = []"
    by blast
  from createOne_trace [of api c w1] obtain rs where
    rs: "trace (stateOf (createOne api c w1)) = trace w1 @ Processing c # map Call rs"
        "\<forall>r\<in>set rs. \<exists>d. data c = Some d \<and> r = POST ''/tasks'' (requestBody d)"
    by blast
  have A: "attempts (map Call rs) = []" by (induction rs) simp_all
  have C: "calls (map Call rs) = rs" by (induction rs) simp_all
  have D: "dispatched (map Call rs) = []" by (induction rs) simp_all
  have t1: "trace w1 = trace w @ es" using es(1) pre by simp
  have t2: "trace w2 = trace w @ es @ Processing c # map Call rs"
    using rs(1) fail t1 by simp
  have em: "emitted w w2 = es @ Processing c # map Call rs"
    using t2 by simp
  have att: "attempts (emitted w w2) = pre @ [c]"
    using em es(2) pre A by simp
  have cal: "\<forall>r\<in>set (calls (emitted w w2)). verbPhase r = 0"
    using em es(3) rs(2) C by fastforce
  have dis: "dispatched (emitted w w2) = []"
    using em es(4) D by simp
  \<comment> \<open>the outbox\<close>
  have sub: "set (creates (sortedOps w)) \<subseteq> set (outbox w)"
    by (auto simp add: creates_def sortedOps_def getOutbox_def)
  have inj: "inj_on op_id (set (outbox w))"
    using ids by (simp add: distinct_map)
  have dc: "distinct (creates (sortedOps w))"
    using ids by (simp add: creates_def sortedOps_def getOutbox_def distinct_map)
  have pre_sub: "set pre \<subseteq> set (outbox w)" using sub cs by auto
  have o1: "outbox w1 = filter (\<lambda>q. op_id q \<notin> op_id ` set pre) (outbox w)"
    using forEach_create_outbox [OF pre] .
  have "filter (\<lambda>q. op_id q \<notin> op_id ` set pre) (outbox w) =
        filter (\<lambda>q. q \<notin> set pre) (outbox w)"
  proof (rule filter_cong [OF refl])
    fix q assume q: "q \<in> set (outbox w)"
    show "(op_id q \<notin> op_id ` set pre) = (q \<notin> set pre)"
      using q pre_sub inj by (auto dest: inj_onD)
  qed
  then have o2: "outbox w2 = filter (\<lambda>q. q \<notin> set pre) (outbox w)"
    using o1 createOne_Inl_stores [OF fail] by simp
  have c_in: "c \<in> set (outbox w)" "c \<notin> set pre"
    using sub cs dc by auto
  have post_in: "set post \<subseteq> set (outbox w)" "set post \<inter> set pre = {}"
    using sub cs dc by auto
  have "\<forall>p\<in>set (creates (sortedOps w)). op p = Create"
    by (simp add: creates_def)
  then have kind: "\<forall>p\<in>set pre. op p = Create"
    using cs by simp
  have up: "set (updates (sortedOps w)) \<subseteq> set (outbox w)"
    "set (updates (sortedOps w)) \<inter> set pre = {}"
    using kind by (auto simp add: updates_def sortedOps_def getOutbox_def)
  have de: "set (deletes (sortedOps w)) \<subseteq> set (outbox w)"
    "set (deletes (sortedOps w)) \<inter> set pre = {}"
    using kind by (auto simp add: deletes_def sortedOps_def getOutbox_def)
  have r1: "c \<in> set (outbox w2)" using o2 c_in by simp
  have r2: "set post \<subseteq> set (outbox w2)" using o2 post_in by auto
  have r3: "set (updates (sortedOps w)) \<subseteq> set (outbox w2)" using o2 up by auto
  have r4: "set (deletes (sortedOps w)) \<subseteq> set (outbox w2)" using o2 de by auto
  have st: "mapping w2 = mapping w1" "cache w2 = cache w1"
    using createOne_Inl_stores [OF fail] by simp_all
  show ?thesis
    using run att cal dis o2 r1 r2 r3 r4 st by blast
qed

lemma failWorld_echo:
  "\<not> isl (forEach (createOne echoServer) [opCreate] failWorld)"
  "isl (createOne echoServer opCreate2 (stateOf (forEach (createOne echoServer) [opCreate] failWorld)))"
  "map_option task_id (normalizeTask (JObj [(''_id'', JStr ''tmp-3'')])) = Some (clienteId opCreate2)"
  by code_simp+

lemma failWorld_flaky:
  "\<not> isl (forEach (createOne flakyServer) [opCreate] failWorld)"
  "isl (createOne flakyServer opCreate2 (stateOf (forEach (createOne flakyServer) [opCreate] failWorld)))"
  by code_simp+

lemma failWorld_rest:
  "filter (\<lambda>q. q \<notin> set [opCreate]) (outbox failWorld) = [opCreate3, opUpdate, opCreate2, opDelete]"
  by (simp add: failWorld_def opCreate_def opCreate2_def opCreate3_def opUpdate_def opDelete_def)

theorem create_fail_stop_witness:
  "creates (sortedOps failWorld) = [opCreate, opCreate2, opCreate3]
   \<and> distinct (map op_id (outbox failWorld))
   \<and> attempts (emitted failWorld (syncNow echoServer True failWorld)) = [opCreate, opCreate2]
   \<and> outbox (syncNow echoServer True failWorld) = [opCreate3, opUpdate, opCreate2, opDelete]
   \<and> dispatched (emitted failWorld (syncNow echoServer True failWorld)) = []
   \<and> attempts (emitted failWorld (syncNow flakyServer True failWorld)) = [opCreate, opCreate2]
   \<and> outbox (syncNow flakyServer True failWorld) = [opCreate3, opUpdate, opCreate2, opDelete]
   \<and> dispatched (emitted failWorld (syncNow flakyServer True failWorld)) = []"
proof -
  let ?e1 = "stateOf (forEach (createOne echoServer) [opCreate] failWorld)"
  let ?e2 = "stateOf (createOne echoServer opCreate2 ?e1)"
  let ?f1 = "stateOf (forEach (createOne flakyServer) [opCreate] failWorld)"
  let ?f2 = "stateOf (createOne flakyServer opCreate2 ?f1)"
  have e1: "forEach (createOne echoServer) [opCreate] failWorld = Inr ?e1"
    using failWorld_echo(1) by (rule not_isl_stateOf)
  have e2: "createOne echoServer opCreate2 ?e1 = Inl ?e2"
    using failWorld_echo(2) by (rule isl_stateOf)
  have f1: "forEach (createOne flakyServer) [opCreate] failWorld = Inr ?f1"
    using failWorld_flaky(1) by (rule not_isl_stateOf)
  have f2: "createOne flakyServer opCreate2 ?f1 = Inl ?f2"
    using failWorld_flaky(2) by (rule isl_stateOf)
  note E = create_fail_stop [where api = echoServer and w = failWorld and onLine = True
      and pre = "[opCreate]" and c = opCreate2 and post = "[opCreate3]"
      and ?w1.0 = ?e1 and ?w2.0 = ?e2,
      OF TrueI failWorld_creates(2) e1 e2 failWorld_creates(5)]
  note F = create_fail_stop [where api = flakyServer and w = failWorld and onLine = True
      and pre = "[opCreate]" and c = opCreate2 and post = "[opCreate3]"
      and ?w1.0 = ?f1 and ?w2.0 = ?f2,
      OF TrueI failWorld_creates(2) f1 f2 failWorld_creates(5)]
  have Er: "syncNow echoServer True failWorld = ?e2" using E by blast
  have Fr: "syncNow flakyServer True failWorld = ?f2" using F by blast
  have "attempts (emitted failWorld ?e2) = [opCreate] @ [opCreate2]"
    "outbox ?e2 = filter (\<lambda>q. q \<notin> set [opCreate]) (outbox failWorld)"
    "dispatched (emitted failWorld ?e2) = []"
    using E by blast+
  moreover have "attempts (emitted failWorld ?f2) = [opCreate] @ [opCreate2]"
    "outbox ?f2 = filter (\<lambda>q. q \<notin> set [opCreate]) (outbox failWorld)"
    "dispatched (emitted failWorld ?f2) = []"
    using F by blast+
  ultimately show ?thesis
    unfolding Er Fr failWorld_rest
    using failWorld_creates(2,5) by simp
qed

section \<open>The check of the server id\<close>

text \<open>A response whose id is the record's own client id, or is the empty string, ends
  the create in the \<open>catch\<close>: the call has been made, and no store has changed.\<close>

lemma createOne_invalid_id:
  assumes "data p = Some d"
    and "api (calls (trace w)) (POST ''/tasks'' (requestBody d)) = Resolved r"
    and "normalizeTask (nullish (optProp r ''task'') r) = Some t"
    and "task_id t = clienteId p \<or> task_id t = []"
  shows "createOne api p w =
      Inl (emit (Call (POST ''/tasks'' (requestBody d))) (emit (Processing p) w))"
  using assms by (auto simp add: createOne_def Let_def)

text \<open>
  C4 at a response without an id. The server answers the create of \<open>opCreate\<close> with
  the task it was sent, under \<open>task\<close>, with neither \<open>_id\<close> nor \<open>id\<close>. \<open>normalizeTask\<close>
  makes the id \<open>String(undefined)\<close>, the text \<open>undefined\<close>, which is neither empty nor
  the client id, so the check lets it through: the create succeeds, \<open>tmp-1\<close> is mapped
  to \<open>undefined\<close>, the cached entity is replaced by one keyed \<open>undefined\<close>, the record
  leaves the outbox, and the pass goes on to send the queued update to
  \<open>/tasks/undefined\<close> and to dispatch its completion event.
\<close>

theorem create_without_server_id:
  "noIdServer [] (POST ''/tasks'' (requestBody (the (data opCreate)))) =
     Resolved (JObj [(''task'', JObj [(''title'', JStr ''A''), (''description'', JStr []),
                                      (''status'', JStr ''Pendiente'')])])
   \<and> \<not> isl (createOne noIdServer opCreate exWorld)
   \<and> getMapping ''tmp-1'' (stateOf (createOne noIdServer opCreate exWorld)) = Some ''undefined''
   \<and> cache (stateOf (createOne noIdServer opCreate exWorld)) ''tmp-1'' = None
   \<and> cache (stateOf (createOne noIdServer opCreate exWorld)) ''undefined'' =
       Some [(''_id'', JStr ''undefined''), (''title'', JStr ''A''),
             (''description'', JStr []), (''status'', JStr ''Pendiente''),
             (''clienteId'', JUndefined), (''createdAt'', JUndefined)]
   \<and> outbox (stateOf (createOne noIdServer opCreate exWorld)) = [opUpdate, opDelete]
   \<and> calls (trace (syncNow noIdServer True exWorld)) =
       [POST ''/tasks'' [(''title'', JStr ''A''), (''description'', JStr []),
                         (''status'', JStr ''Pendiente'')],
        PUT ''/tasks/undefined'' [(''title'', JStr ''A2''), (''description'', JStr []),
                                  (''status'', JStr ''En Progreso'')]]
   \<and> outbox (syncNow noIdServer True exWorld) = []
   \<and> dispatched (trace (syncNow noIdServer True exWorld)) = [''sync-complete'']"
  by code_simp

section \<open>Orphaned updates and deletes\<close>

text \<open>
  C5. An update record whose \<open>clienteId\<close> has no entry in the identity map is removed
  from the outbox and the loop goes on with the next record; so is a delete record
  that has no \<open>serverId\<close> and whose \<open>clienteId\<close> has no entry. Neither makes a network
  call, and neither touches the identity map or the cache.
\<close>

theorem orphan_discard:
  "(getMapping (clienteId p) w = None \<longrightarrow>
      updateOne api p w = Inr (removePendingOp (op_id p) (emit (Processing p) w))
      \<and> forEach (updateOne api) (p # ps) w =
          forEach (updateOne api) ps (removePendingOp (op_id p) (emit (Processing p) w)))
   \<and> (serverId p = None \<and> getMapping (clienteId p) w = None \<longrightarrow>
      deleteOne api p w = Inr (removePendingOp (op_id p) (emit (Processing p) w))
      \<and> forEach (deleteOne api) (p # ps) w =
          forEach (deleteOne api) ps (removePendingOp (op_id p) (emit (Processing p) w)))
   \<and> calls (trace (removePendingOp (op_id p) (emit (Processing p) w))) = calls (trace w)
   \<and> (\<forall>q\<in>set (outbox (removePendingOp (op_id p) (emit (Processing p) w))). op_id q \<noteq> op_id p)
   \<and> mapping (removePendingOp (op_id p) (emit (Processing p) w)) = mapping w
   \<and> cache (removePendingOp (op_id p) (emit (Processing p) w)) = cache w"
proof -
  let ?w' = "removePendingOp (op_id p) (emit (Processing p) w)"
  have u: "getMapping (clienteId p) w = None \<longrightarrow> updateOne api p w = Inr ?w'"
  proof
    assume "getMapping (clienteId p) w = None"
    then show "updateOne api p w = Inr ?w'"
      by (simp add: updateOne_def Let_def falsy_def)
  qed
  have d: "serverId p = None \<and> getMapping (clienteId p) w = None \<longrightarrow>
      deleteOne api p w = Inr ?w'"
  proof (intro impI, elim conjE)
    assume "serverId p = None" "getMapping (clienteId p) w = None"
    then show "deleteOne api p w = Inr ?w'"
      by (simp add: deleteOne_def Let_def falsy_def)
  qed
  have c: "calls (trace ?w') = calls (trace w)" by simp
  have o: "\<forall>q\<in>set (outbox ?w'). op_id q \<noteq> op_id p" by simp
  show ?thesis using u d c o by simp
qed

theorem orphan_discard_witness:
  "getMapping (clienteId opUpdate) exWorld = None
   \<and> updateOne exServer opUpdate exWorld =
       Inr (exWorld\<lparr>outbox := [opCreate, opDelete], trace := [Processing opUpdate]\<rparr>)
   \<and> serverId opDelete = None \<and> getMapping (clienteId opDelete) exWorld = None
   \<and> deleteOne exServer opDelete exWorld =
       Inr (exWorld\<lparr>outbox := [opCreate, opUpdate], trace := [Processing opDelete]\<rparr>)"
proof -
  have m: "getMapping (clienteId opUpdate) exWorld = None"
    "getMapping (clienteId opDelete) exWorld = None" "serverId opDelete = None"
    by (simp_all add: getMapping_def exWorld_def opDelete_def)
  have w1: "removePendingOp (op_id opUpdate) (emit (Processing opUpdate) exWorld) =
      exWorld\<lparr>outbox := [opCreate, opDelete], trace := [Processing opUpdate]\<rparr>"
    by (simp add: removePendingOp_def emit_def exWorld_def opCreate_def opUpdate_def opDelete_def)
  have w2: "removePendingOp (op_id opDelete) (emit (Processing opDelete) exWorld) =
      exWorld\<lparr>outbox := [opCreate, opUpdate], trace := [Processing opDelete]\<rparr>"
    by (simp add: removePendingOp_def emit_def exWorld_def opCreate_def opUpdate_def opDelete_def)
  show ?thesis
    using orphan_discard [of opUpdate exWorld exServer "[]"]
      orphan_discard [of opDelete exWorld exServer "[]"] m w1 w2
    by simp
qed

section \<open>Replaying an update\<close>

text \<open>An update record whose client id is mapped to \<open>s\<close> sends its payload to
  \<open>/tasks/s\<close>. When the call resolves, the cache entry \<open>s\<close> is overwritten by the
  payload with \<open>_id\<close> set to \<open>s\<close>, and the record leaves the outbox; when it rejects,
  the loop returns from its \<open>catch\<close> with no store changed.\<close>

lemma updateOne_replay:
  assumes "getMapping (clienteId p) w = Some s" and "s \<noteq> []" and "data p = Some d"
  shows "updateOne api p w =
      (case api (calls (trace w)) (PUT (''/tasks/'' @ s) (requestBody d)) of
         Rejected \<Rightarrow>
           Inl (emit (Call (PUT (''/tasks/'' @ s) (requestBody d))) (emit (Processing p) w))
       | Resolved v \<Rightarrow>
           Inr (removePendingOp (op_id p) (putTaskLocal (withId d s)
                 (emit (Call (PUT (''/tasks/'' @ s) (requestBody d))) (emit (Processing p) w)))))"
  using assms by (simp add: updateOne_def Let_def falsy_def split: reply.splits)

lemma updateOne_rejected_stops:
  assumes "getMapping (clienteId p) w = Some s" and "s \<noteq> []" and "data p = Some d"
    and "api (calls (trace w)) (PUT (''/tasks/'' @ s) (requestBody d)) = Rejected"
  shows "forEach (updateOne api) (p # ps) w =
      Inl (emit (Call (PUT (''/tasks/'' @ s) (requestBody d))) (emit (Processing p) w))"
  using updateOne_replay [OF assms(1-3), of api] assms(4) by simp

section \<open>Replaying a delete\<close>

lemma delWorld_buckets:
  "creates (sortedOps delWorld) = []"
  "updates (sortedOps delWorld) = []"
  "deletes (sortedOps delWorld) = [opDeleteRef, opDeleteMapped]"
  by code_simp+

text \<open>
  C6. The target of a delete record is the \<open>serverId\<close> stored on the record when there
  is one, whatever the identity map says, and otherwise what the identity map gives for
  the record's \<open>clienteId\<close>. (An id is a non-empty string: an empty \<open>serverId\<close> counts as
  none, and an empty \<open>clienteId\<close> is not looked up.) With a target \<open>s\<close>, the record
  makes one call, \<open>DELETE /tasks/s\<close>. When the call resolves, the entity \<open>s\<close> is gone
  from the cache, the record is gone from the outbox, and the loop goes on. When it
  rejects, the loop returns at once whatever records follow, no store has changed, and
  the whole pass ends in that state.
\<close>

theorem delete_replay:
  assumes target:
      "serverId p = Some s \<or>
       (falsy (serverId p) \<and> clienteId p \<noteq> [] \<and> getMapping (clienteId p) w = Some s)"
    and s: "s \<noteq> []"
  shows
    "(\<forall>v. api (calls (trace w)) (DELETE (''/tasks/'' @ s)) = Resolved v \<longrightarrow>
        deleteOne api p w =
          Inr (removePendingOp (op_id p) (removeTaskLocal s
                (emit (Call (DELETE (''/tasks/'' @ s))) (emit (Processing p) w))))
        \<and> forEach (deleteOne api) (p # ps) w =
            forEach (deleteOne api) ps
              (removePendingOp (op_id p) (removeTaskLocal s
                (emit (Call (DELETE (''/tasks/'' @ s))) (emit (Processing p) w)))))
     \<and> cache (removePendingOp (op_id p) (removeTaskLocal s
                (emit (Call (DELETE (''/tasks/'' @ s))) (emit (Processing p) w)))) s = None
     \<and> (\<forall>q\<in>set (outbox (removePendingOp (op_id p) (removeTaskLocal s
                (emit (Call (DELETE (''/tasks/'' @ s))) (emit (Processing p) w))))).
           op_id q \<noteq> op_id p)
     \<and> (api (calls (trace w)) (DELETE (''/tasks/'' @ s)) = Rejected \<longrightarrow>
        deleteOne api p w = Inl (emit (Call (DELETE (''/tasks/'' @ s))) (emit (Processing p) w))
        \<and> forEach (deleteOne api) (p # ps) w =
            Inl (emit (Call (DELETE (''/tasks/'' @ s))) (emit (Processing p) w)))
     \<and> outbox (emit (Call (DELETE (''/tasks/'' @ s))) (emit (Processing p) w)) = outbox w
     \<and> mapping (emit (Call (DELETE (''/tasks/'' @ s))) (emit (Processing p) w)) = mapping w
     \<and> cache (emit (Call (DELETE (''/tasks/'' @ s))) (emit (Processing p) w)) = cache w
     \<and> (onLine \<and> forEach (createOne api) (creates (sortedOps w0)) w0 = Inr w1
          \<and> forEach (updateOne api) (updates (sortedOps w0)) w1 = Inr w2
          \<and> deletes (sortedOps w0) = pre @ p # ps
          \<and> forEach (deleteOne api) pre w2 = Inr w
          \<and> api (calls (trace w)) (DELETE (''/tasks/'' @ s)) = Rejected \<longrightarrow>
        syncNow api onLine w0 =
          emit (Call (DELETE (''/tasks/'' @ s))) (emit (Processing p) w))"
proof -
  let ?req = "DELETE (''/tasks/'' @ s)"
  let ?w1 = "emit (Call ?req) (emit (Processing p) w)"
  let ?w' = "removePendingOp (op_id p) (removeTaskLocal s ?w1)"
  have sid: "(if falsy (serverId p) \<and> clienteId p \<noteq> []
              then getMapping (clienteId p) w else serverId p) = Some s"
    using target s by (auto simp add: falsy_def)
  have nf: "\<not> falsy (Some s)" using s by (simp add: falsy_def)
  have step: "deleteOne api p w =
      (case api (calls (trace w)) ?req of Rejected \<Rightarrow> Inl ?w1 | Resolved v \<Rightarrow> Inr ?w')"
    unfolding deleteOne_def Let_def getMapping_emit sid using nf
    by (simp split: reply.splits)
  have ok: "\<forall>v. api (calls (trace w)) ?req = Resolved v \<longrightarrow>
      deleteOne api p w = Inr ?w'
      \<and> forEach (deleteOne api) (p # ps) w = forEach (deleteOne api) ps ?w'"
    by (simp add: step)
  have ko: "api (calls (trace w)) ?req = Rejected \<longrightarrow>
      deleteOne api p w = Inl ?w1 \<and> forEach (deleteOne api) (p # ps) w = Inl ?w1"
    by (simp add: step)
  have pass: "onLine \<and> forEach (createOne api) (creates (sortedOps w0)) w0 = Inr w1
          \<and> forEach (updateOne api) (updates (sortedOps w0)) w1 = Inr w2
          \<and> deletes (sortedOps w0) = pre @ p # ps
          \<and> forEach (deleteOne api) pre w2 = Inr w
          \<and> api (calls (trace w)) ?req = Rejected \<longrightarrow>
        syncNow api onLine w0 = ?w1"
  proof (intro impI, elim conjE)
    assume on: onLine
      and c: "forEach (createOne api) (creates (sortedOps w0)) w0 = Inr w1"
      and u: "forEach (updateOne api) (updates (sortedOps w0)) w1 = Inr w2"
      and d: "deletes (sortedOps w0) = pre @ p # ps"
      and pre: "forEach (deleteOne api) pre w2 = Inr w"
      and rej: "api (calls (trace w)) ?req = Rejected"
    have ne: "sortedOps w0 \<noteq> []" using d by (auto simp add: deletes_def)
    have "forEach (deleteOne api) (deletes (sortedOps w0)) w2 = Inl ?w1"
      using d pre ko rej by (simp add: forEach_append)
    then show "syncNow api onLine w0 = ?w1"
      using on ne c u by (simp add: syncNow_def)
  qed
  have c: "cache ?w' s = None" by simp
  have o: "\<forall>q\<in>set (outbox ?w'). op_id q \<noteq> op_id p" by simp
  have f: "outbox ?w1 = outbox w" "mapping ?w1 = mapping w" "cache ?w1 = cache w"
    by simp_all
  show ?thesis
    using ok ko pass c o f by blast
qed

theorem delete_replay_witness:
  "serverId opDeleteRef = Some ''srv-5'' \<and> getMapping (clienteId opDeleteRef) delWorld = Some ''srv-1''
   \<and> deleteOne exServer opDeleteRef delWorld =
       Inr \<lparr> outbox = [opDeleteMapped],
             mapping = [''tmp-0'' \<mapsto> ''srv-1''],
             cache = [''srv-1'' \<mapsto> [(''_id'', JStr ''srv-1''), (''title'', JStr ''Z'')]],
             trace = [Processing opDeleteRef, Call (DELETE ''/tasks/srv-5'')] \<rparr>
   \<and> syncNow downServer True delWorld =
       delWorld\<lparr>trace := [Processing opDeleteRef, Call (DELETE ''/tasks/srv-5'')]\<rparr>"
proof -
  have t: "serverId opDeleteRef = Some ''srv-5''" by (simp add: opDeleteRef_def)
  have m: "getMapping (clienteId opDeleteRef) delWorld = Some ''srv-1''"
    by (simp add: getMapping_def delWorld_def opDeleteRef_def)
  have s: "''srv-5'' \<noteq> []" by simp
  have tr: "trace delWorld = []" by (simp add: delWorld_def)
  note inst1 = delete_replay [where p = opDeleteRef and s = "''srv-5''" and w = delWorld
      and api = exServer, OF disjI1 [OF t] s]
  note inst2 = delete_replay [where p = opDeleteRef and s = "''srv-5''" and w = delWorld
      and api = downServer and ps = "[opDeleteMapped]" and pre = "[]" and onLine = True
      and ?w0.0 = delWorld and ?w1.0 = delWorld and ?w2.0 = delWorld, OF disjI1 [OF t] s]
  have r1: "exServer (calls (trace delWorld)) (DELETE (''/tasks/'' @ ''srv-5'')) = Resolved JNull"
    by (simp add: exServer_def)
  have r2: "downServer (calls (trace delWorld)) (DELETE (''/tasks/'' @ ''srv-5'')) = Rejected"
    by (simp add: downServer_def)
  have d1: "deleteOne exServer opDeleteRef delWorld =
      Inr (removePendingOp (op_id opDeleteRef) (removeTaskLocal ''srv-5''
            (emit (Call (DELETE (''/tasks/'' @ ''srv-5''))) (emit (Processing opDeleteRef) delWorld))))"
    using inst1 r1 by blast
  have d2: "syncNow downServer True delWorld =
      emit (Call (DELETE (''/tasks/'' @ ''srv-5''))) (emit (Processing opDeleteRef) delWorld)"
    using inst2 r2 by (simp add: delWorld_buckets)
  have e1: "removePendingOp (op_id opDeleteRef) (removeTaskLocal ''srv-5''
            (emit (Call (DELETE (''/tasks/'' @ ''srv-5''))) (emit (Processing opDeleteRef) delWorld)))
      = \<lparr> outbox = [opDeleteMapped],
             mapping = [''tmp-0'' \<mapsto> ''srv-1''],
             cache = [''srv-1'' \<mapsto> [(''_id'', JStr ''srv-1''), (''title'', JStr ''Z'')]],
             trace = [Processing opDeleteRef, Call (DELETE ''/tasks/srv-5'')] \<rparr>"
    by (simp add: removePendingOp_def removeTaskLocal_def emit_def delWorld_def
        opDeleteRef_def opDeleteMapped_def fun_upd_twist)
  have e2: "emit (Call (DELETE (''/tasks/'' @ ''srv-5''))) (emit (Processing opDeleteRef) delWorld)
      = delWorld\<lparr>trace := [Processing opDeleteRef, Call (DELETE ''/tasks/srv-5'')]\<rparr>"
    by (simp add: emit_def delWorld_def)
  show ?thesis using t m d1 d2 e1 e2 by simp
qed

section \<open>What normalizeTask returns\<close>

lemma those_None_iff: "those xs = None \<longleftrightarrow> None \<in> set xs"
proof (induction xs)
  case Nil
  show ?case by simp
next
  case (Cons x xs)
  then show ?case by (cases x) auto
qed

lemma jsString_None_iff: "jsString v = None \<longleftrightarrow> unprintable v"
proof (induction v rule: jsString.induct)
  case (6 xs)
  let ?E = "\<lambda>v. if v = JUndefined \<or> v = JNull then Some [] else jsString v"
  have e: "?E v = None \<longleftrightarrow> unprintable v" if "v \<in> set xs" for v
  proof (cases "v = JUndefined \<or> v = JNull")
    case True
    then show ?thesis by auto
  next
    case False
    then have "jsString v = None \<longleftrightarrow> unprintable v" using "6" that by blast
    then show ?thesis using False by simp
  qed
  have a: "jsString (JArr xs) = None \<longleftrightarrow> those (map ?E xs) = None"
    by (simp only: jsString.simps option.map_disc_iff)
  have b: "those (map ?E xs) = None \<longleftrightarrow> None \<in> set (map ?E xs)"
    by (rule those_None_iff)
  have c: "None \<in> set (map ?E xs) \<longleftrightarrow> (\<exists>v\<in>set xs. ?E v = None)"
    unfolding set_map image_iff by (rule bex_cong [OF refl]) (rule eq_commute)
  have d: "(\<exists>v\<in>set xs. ?E v = None) \<longleftrightarrow> (\<exists>v\<in>set xs. unprintable v)"
    by (rule bex_cong [OF refl]) (rule e)
  have "unprintable (JArr xs) = (\<exists>v\<in>set xs. unprintable v)"
    by (simp only: unprintable.simps)
  then show ?case using a b c d by (simp only:)
next
  case (7 ps)
  show ?case by (simp only: jsString.simps unprintable.simps) simp
qed (simp_all only: jsString.simps unprintable.simps option.simps)

text \<open>
  The claim C7 as it is worded, that every raw input gives a well-formed entity,
  fails twice. On the input \<open>{_id: "srv-1", title: {toString: 1}}\<close> \<open>String(title)\<close>
  throws, and no entity is returned at all. On the input
  \<open>{_id: "srv-1", title: "A", description: 5}\<close> the entity returned has the number 5 for
  its description, which the data model wants to be a string.
\<close>

theorem normalizeTask_throws_and_keeps_description:
  "normalizeTask (JObj [(''_id'', JStr ''srv-1''), (''title'', JObj [(''toString'', JNum ''1'')])])
     = None
   \<and> normalizeTask (JObj [(''_id'', JStr ''srv-1''), (''title'', JStr ''A''),
                           (''description'', JNum ''5'')])
     = Some \<lparr> task_id = ''srv-1'', title = ''A'', description = JNum ''5'',
              status = JStr ''Pendiente'', task_clienteId = JUndefined,
              createdAt = JUndefined \<rparr>"
  by code_simp

text \<open>
  C7, amended. \<open>normalizeTask\<close> is a function of its argument alone. It throws exactly
  when the id it reads (\<open>_id\<close>, or \<open>id\<close> when \<open>_id\<close> is absent or \<open>null\<close>) or the title
  is a value that \<open>String\<close> cannot print: an object with a property \<open>toString\<close>, or an
  array holding one. On every other input it returns a task, in which

  \<^item> the id is a string: \<open>_id\<close> itself when that is a string, the text of \<open>_id\<close> when
    it is a number, and the same of \<open>id\<close> when \<open>_id\<close> is absent or \<open>null\<close>; the text
    \<open>undefined\<close> when there is neither;
  \<^item> the title is a string: the placeholder when the input has no title or a \<open>null\<close>
    one, the title itself when it is a string, and what \<open>String\<close> makes of it
    otherwise;
  \<^item> the status is one of \<open>Pendiente\<close>, \<open>En Progreso\<close>, \<open>Completada\<close>: the input's when
    it is one of the three, \<open>Pendiente\<close> otherwise;
  \<^item> the description is the input's, whatever kind of value it is, and the empty
    string when the input has none; \<open>clienteId\<close> and \<open>createdAt\<close> are the input's.

  What \<open>String\<close> makes of a value: \<open>true\<close>, \<open>false\<close>, \<open>null\<close>, \<open>undefined\<close> for those,
  \<open>[object Object]\<close> for an object without \<open>toString\<close>, and for an array its elements
  separated by commas, a \<open>null\<close> or \<open>undefined\<close> element giving nothing.
\<close>

theorem normalizeTask_result:
  "(normalizeTask x = None \<longleftrightarrow>
      unprintable (nullish (optProp x ''_id'') (optProp x ''id'')) \<or>
      unprintable (optProp x ''title''))
   \<and> (\<forall>t. normalizeTask x = Some t \<longrightarrow>
        Some (task_id t) = jsString (nullish (optProp x ''_id'') (optProp x ''id''))
      \<and> (\<forall>s. optProp x ''_id'' = JStr s \<longrightarrow> task_id t = s)
      \<and> (\<forall>n. optProp x ''_id'' = JNum n \<longrightarrow> task_id t = n)
      \<and> (\<forall>s. (optProp x ''_id'' = JUndefined \<or> optProp x ''_id'' = JNull) \<and>
               optProp x ''id'' = JStr s \<longrightarrow> task_id t = s)
      \<and> (\<forall>n. (optProp x ''_id'' = JUndefined \<or> optProp x ''_id'' = JNull) \<and>
               optProp x ''id'' = JNum n \<longrightarrow> task_id t = n)
      \<and> ((optProp x ''_id'' = JUndefined \<or> optProp x ''_id'' = JNull) \<and>
            optProp x ''id'' = JUndefined \<longrightarrow> task_id t = ''undefined'')
      \<and> (optProp x ''title'' = JUndefined \<or> optProp x ''title'' = JNull \<longrightarrow>
            title t = sinTitulo)
      \<and> (\<forall>s. optProp x ''title'' = JStr s \<longrightarrow> title t = s)
      \<and> (optProp x ''title'' \<noteq> JUndefined \<and> optProp x ''title'' \<noteq> JNull \<longrightarrow>
            Some (title t) = jsString (optProp x ''title''))
      \<and> status t \<in> {JStr ''Pendiente'', JStr ''En Progreso'', JStr ''Completada''}
      \<and> (optProp x ''status'' \<in> {JStr ''Pendiente'', JStr ''En Progreso'', JStr ''Completada''}
            \<longrightarrow> status t = optProp x ''status'')
      \<and> (optProp x ''status'' \<notin> {JStr ''Pendiente'', JStr ''En Progreso'', JStr ''Completada''}
            \<longrightarrow> status t = JStr ''Pendiente'')
      \<and> (optProp x ''description'' = JUndefined \<or> optProp x ''description'' = JNull \<longrightarrow>
            description t = JStr [])
      \<and> (optProp x ''description'' \<noteq> JUndefined \<and> optProp x ''description'' \<noteq> JNull \<longrightarrow>
            description t = optProp x ''description'')
      \<and> task_clienteId t = optProp x ''clienteId''
      \<and> createdAt t = optProp x ''createdAt'')
   \<and> jsString (JBool True) = Some ''true''
   \<and> jsString (JBool False) = Some ''false''
   \<and> jsString JNull = Some ''null''
   \<and> jsString JUndefined = Some ''undefined''
   \<and> (\<forall>ps. ''toString'' \<notin> fst ` set ps \<longrightarrow> jsString (JObj ps) = Some ''[object Object]'')
   \<and> jsString (JArr []) = Some []
   \<and> (\<forall>v. jsString (JArr [v]) =
          (if v = JUndefined \<or> v = JNull then Some [] else jsString v))
   \<and> (\<forall>v u us. jsString (JArr (v # u # us)) =
          (case (if v = JUndefined \<or> v = JNull then Some [] else jsString v) of
             None \<Rightarrow> None
           | Some a \<Rightarrow>
               (case jsString (JArr (u # us)) of
                  None \<Rightarrow> None
                | Some b \<Rightarrow> Some (a @ '','' @ b))))"
proof -
  let ?i = "nullish (optProp x ''_id'') (optProp x ''id'')"
  let ?tv = "nullish (optProp x ''title'') (JStr sinTitulo)"
  have throws: "normalizeTask x = None \<longleftrightarrow>
      unprintable ?i \<or> unprintable (optProp x ''title'')"
  proof -
    have "normalizeTask x = None \<longleftrightarrow> jsString ?i = None \<or> jsString ?tv = None"
      by (simp add: normalizeTask_def split: option.splits)
    moreover have "unprintable ?tv \<longleftrightarrow> unprintable (optProp x ''title'')"
      by (simp add: nullish_def)
    ultimately show ?thesis by (simp add: jsString_None_iff)
  qed
  have fields: "\<forall>t. normalizeTask x = Some t \<longrightarrow>
        Some (task_id t) = jsString ?i
      \<and> Some (title t) = jsString ?tv
      \<and> status t = (if optProp x ''status'' = JStr ''Completada'' \<or>
                        optProp x ''status'' = JStr ''En Progreso'' \<or>
                        optProp x ''status'' = JStr ''Pendiente''
                     then optProp x ''status'' else JStr ''Pendiente'')
      \<and> description t = nullish (optProp x ''description'') (JStr [])
      \<and> task_clienteId t = optProp x ''clienteId''
      \<and> createdAt t = optProp x ''createdAt''"
    by (auto simp add: normalizeTask_def split: option.splits)
  have ret: "\<forall>t. normalizeTask x = Some t \<longrightarrow>
        Some (task_id t) = jsString (nullish (optProp x ''_id'') (optProp x ''id''))
      \<and> (\<forall>s. optProp x ''_id'' = JStr s \<longrightarrow> task_id t = s)
      \<and> (\<forall>n. optProp x ''_id'' = JNum n \<longrightarrow> task_id t = n)
      \<and> (\<forall>s. (optProp x ''_id'' = JUndefined \<or> optProp x ''_id'' = JNull) \<and>
               optProp x ''id'' = JStr s \<longrightarrow> task_id t = s)
      \<and> (\<forall>n. (optProp x ''_id'' = JUndefined \<or> optProp x ''_id'' = JNull) \<and>
               optProp x ''id'' = JNum n \<longrightarrow> task_id t = n)
      \<and> ((optProp x ''_id'' = JUndefined \<or> optProp x ''_id'' = JNull) \<and>
            optProp x ''id'' = JUndefined \<longrightarrow> task_id t = ''undefined'')
      \<and> (optProp x ''title'' = JUndefined \<or> optProp x ''title'' = JNull \<longrightarrow>
            title t = sinTitulo)
      \<and> (\<forall>s. optProp x ''title'' = JStr s \<longrightarrow> title t = s)
      \<and> (optProp x ''title'' \<noteq> JUndefined \<and> optProp x ''title'' \<noteq> JNull \<longrightarrow>
            Some (title t) = jsString (optProp x ''title''))
      \<and> status t \<in> {JStr ''Pendiente'', JStr ''En Progreso'', JStr ''Completada''}
      \<and> (optProp x ''status'' \<in> {JStr ''Pendiente'', JStr ''En Progreso'', JStr ''Completada''}
            \<longrightarrow> status t = optProp x ''status'')
      \<and> (optProp x ''status'' \<notin> {JStr ''Pendiente'', JStr ''En Progreso'', JStr ''Completada''}
            \<longrightarrow> status t = JStr ''Pendiente'')
      \<and> (optProp x ''description'' = JUndefined \<or> optProp x ''description'' = JNull \<longrightarrow>
            description t = JStr [])
      \<and> (optProp x ''description'' \<noteq> JUndefined \<and> optProp x ''description'' \<noteq> JNull \<longrightarrow>
            description t = optProp x ''description'')
      \<and> task_clienteId t = optProp x ''clienteId''
      \<and> createdAt t = optProp x ''createdAt''"
  proof (intro allI impI)
    fix t assume "normalizeTask x = Some t"
    with fields have f:
      "Some (task_id t) = jsString ?i"
      "Some (title t) = jsString ?tv"
      "status t = (if optProp x ''status'' = JStr ''Completada'' \<or>
                        optProp x ''status'' = JStr ''En Progreso'' \<or>
                        optProp x ''status'' = JStr ''Pendiente''
                     then optProp x ''status'' else JStr ''Pendiente'')"
      "description t = nullish (optProp x ''description'') (JStr [])"
      "task_clienteId t = optProp x ''clienteId''"
      "createdAt t = optProp x ''createdAt''"
      by blast+
    have i1: "\<forall>s. optProp x ''_id'' = JStr s \<longrightarrow> task_id t = s"
      using f(1) by (auto simp add: nullish_def)
    have i2: "\<forall>n. optProp x ''_id'' = JNum n \<longrightarrow> task_id t = n"
      using f(1) by (auto simp add: nullish_def)
    have i3: "\<forall>s. (optProp x ''_id'' = JUndefined \<or> optProp x ''_id'' = JNull) \<and>
               optProp x ''id'' = JStr s \<longrightarrow> task_id t = s"
      using f(1) by (auto simp add: nullish_def)
    have i4: "\<forall>n. (optProp x ''_id'' = JUndefined \<or> optProp x ''_id'' = JNull) \<and>
               optProp x ''id'' = JNum n \<longrightarrow> task_id t = n"
      using f(1) by (auto simp add: nullish_def)
    have i5: "(optProp x ''_id'' = JUndefined \<or> optProp x ''_id'' = JNull) \<and>
            optProp x ''id'' = JUndefined \<longrightarrow> task_id t = ''undefined''"
      using f(1) by (auto simp add: nullish_def)
    have t1: "optProp x ''title'' = JUndefined \<or> optProp x ''title'' = JNull \<longrightarrow>
            title t = sinTitulo"
      using f(2) by (auto simp add: nullish_def)
    have t2: "\<forall>s. optProp x ''title'' = JStr s \<longrightarrow> title t = s"
      using f(2) by (auto simp add: nullish_def)
    have t3: "optProp x ''title'' \<noteq> JUndefined \<and> optProp x ''title'' \<noteq> JNull \<longrightarrow>
            Some (title t) = jsString (optProp x ''title'')"
      using f(2) by (simp add: nullish_def)
    have s1: "status t \<in> {JStr ''Pendiente'', JStr ''En Progreso'', JStr ''Completada''}"
      using f(3) by auto
    have s2: "optProp x ''status'' \<in> {JStr ''Pendiente'', JStr ''En Progreso'', JStr ''Completada''}
            \<longrightarrow> status t = optProp x ''status''"
      using f(3) by auto
    have s3: "optProp x ''status'' \<notin> {JStr ''Pendiente'', JStr ''En Progreso'', JStr ''Completada''}
            \<longrightarrow> status t = JStr ''Pendiente''"
      using f(3) by auto
    have d1: "optProp x ''description'' = JUndefined \<or> optProp x ''description'' = JNull \<longrightarrow>
            description t = JStr []"
      using f(4) by (auto simp add: nullish_def)
    have d2: "optProp x ''description'' \<noteq> JUndefined \<and> optProp x ''description'' \<noteq> JNull \<longrightarrow>
            description t = optProp x ''description''"
      using f(4) by (simp add: nullish_def)
    show "Some (task_id t) = jsString (nullish (optProp x ''_id'') (optProp x ''id''))
      \<and> (\<forall>s. optProp x ''_id'' = JStr s \<longrightarrow> task_id t = s)
      \<and> (\<forall>n. optProp x ''_id'' = JNum n \<longrightarrow> task_id t = n)
      \<and> (\<forall>s. (optProp x ''_id'' = JUndefined \<or> optProp x ''_id'' = JNull) \<and>
               optProp x ''id'' = JStr s \<longrightarrow> task_id t = s)
      \<and> (\<forall>n. (optProp x ''_id'' = JUndefined \<or> optProp x ''_id'' = JNull) \<and>
               optProp x ''id'' = JNum n \<longrightarrow> task_id t = n)
      \<and> ((optProp x ''_id'' = JUndefined \<or> optProp x ''_id'' = JNull) \<and>
            optProp x ''id'' = JUndefined \<longrightarrow> task_id t = ''undefined'')
      \<and> (optProp x ''title'' = JUndefined \<or> optProp x ''title'' = JNull \<longrightarrow>
            title t = sinTitulo)
      \<and> (\<forall>s. optProp x ''title'' = JStr s \<longrightarrow> title t = s)
      \<and> (optProp x ''title'' \<noteq> JUndefined \<and> optProp x ''title'' \<noteq> JNull \<longrightarrow>
            Some (title t) = jsString (optProp x ''title''))
      \<and> status t \<in> {JStr ''Pendiente'', JStr ''En Progreso'', JStr ''Completada''}
      \<and> (optProp x ''status'' \<in> {JStr ''Pendiente'', JStr ''En Progreso'', JStr ''Completada''}
            \<longrightarrow> status t = optProp x ''status'')
      \<and> (optProp x ''status'' \<notin> {JStr ''Pendiente'', JStr ''En Progreso'', JStr ''Completada''}
            \<longrightarrow> status t = JStr ''Pendiente'')
      \<and> (optProp x ''description'' = JUndefined \<or> optProp x ''description'' = JNull \<longrightarrow>
            description t = JStr [])
      \<and> (optProp x ''description'' \<noteq> JUndefined \<and> optProp x ''description'' \<noteq> JNull \<longrightarrow>
            description t = optProp x ''description'')
      \<and> task_clienteId t = optProp x ''clienteId''
      \<and> createdAt t = optProp x ''createdAt''"
      by (intro conjI f(1) i1 i2 i3 i4 i5 t1 t2 t3 s1 s2 s3 d1 d2 f(5) f(6))
  qed
  have prim: "jsString (JBool True) = Some ''true''" "jsString (JBool False) = Some ''false''"
    "jsString JNull = Some ''null''" "jsString JUndefined = Some ''undefined''"
    by simp_all
  have obj: "\<forall>ps. ''toString'' \<notin> fst ` set ps \<longrightarrow> jsString (JObj ps) = Some ''[object Object]''"
    by simp
  have arr0: "jsString (JArr []) = Some []" by simp
  have arr1: "\<forall>v. jsString (JArr [v]) =
          (if v = JUndefined \<or> v = JNull then Some [] else jsString v)"
    by (auto split: option.splits)
  have arr2: "\<forall>v u us. jsString (JArr (v # u # us)) =
          (case (if v = JUndefined \<or> v = JNull then Some [] else jsString v) of
             None \<Rightarrow> None
           | Some a \<Rightarrow>
               (case jsString (JArr (u # us)) of
                  None \<Rightarrow> None
                | Some b \<Rightarrow> Some (a @ '','' @ b)))"
    by (auto split: option.splits)
  show ?thesis
    by (intro conjI throws ret prim obj arr0 arr1 arr2)
qed

lemma normalizeTask_examples:
  "normalizeTask JNull =
     Some \<lparr> task_id = ''undefined'', title = sinTitulo, description = JStr [],
            status = JStr ''Pendiente'', task_clienteId = JUndefined, createdAt = JUndefined \<rparr>"
  "normalizeTask (JObj [(''id'', JNum ''42''), (''title'', JNull), (''status'', JStr ''Hecha''),
                        (''description'', JNum ''7'')]) =
     Some \<lparr> task_id = ''42'', title = sinTitulo, description = JNum ''7'',
            status = JStr ''Pendiente'', task_clienteId = JUndefined, createdAt = JUndefined \<rparr>"
  "normalizeTask (JObj [(''_id'', JArr [JStr ''a'', JNull, JNum ''3'']), (''id'', JNum ''42''),
                        (''title'', JBool True), (''status'', JStr ''En Progreso'')]) =
     Some \<lparr> task_id = ''a,,3'', title = ''true'', description = JStr [],
            status = JStr ''En Progreso'', task_clienteId = JUndefined, createdAt = JUndefined \<rparr>"
  "normalizeTask (JObj [(''_id'', JObj [(''valueOf'', JNum ''1'')]), (''title'', JStr ''T'')]) =
     Some \<lparr> task_id = ''[object Object]'', title = ''T'', description = JStr [],
            status = JStr ''Pendiente'', task_clienteId = JUndefined, createdAt = JUndefined \<rparr>"
  by code_simp+

theorem normalizeTask_result_witness:
  "normalizeTask (JObj [(''_id'', JArr [JNum ''1'', JObj [(''toString'', JNull)]]),
                        (''title'', JStr ''T'')]) = None
   \<and> normalizeTask (JObj [(''id'', JNum ''42''), (''title'', JNull), (''status'', JStr ''Hecha''),
                        (''description'', JNum ''7'')]) =
     Some \<lparr> task_id = ''42'', title = sinTitulo, description = JNum ''7'',
            status = JStr ''Pendiente'', task_clienteId = JUndefined, createdAt = JUndefined \<rparr>
   \<and> normalizeTask (JObj [(''_id'', JArr [JStr ''a'', JNull, JNum ''3'']), (''id'', JNum ''42''),
                        (''title'', JBool True), (''status'', JStr ''En Progreso'')]) =
     Some \<lparr> task_id = ''a,,3'', title = ''true'', description = JStr [],
            status = JStr ''En Progreso'', task_clienteId = JUndefined, createdAt = JUndefined \<rparr>
   \<and> normalizeTask JNull =
     Some \<lparr> task_id = ''undefined'', title = sinTitulo, description = JStr [],
            status = JStr ''Pendiente'', task_clienteId = JUndefined, createdAt = JUndefined \<rparr>
   \<and> jsString (JArr [JStr ''a'', JNull, JNum ''3'']) = Some ''a,,3''"
proof -
  let ?x = "JObj [(''_id'', JArr [JNum ''1'', JObj [(''toString'', JNull)]]), (''title'', JStr ''T'')]"
  have "unprintable (nullish (optProp ?x ''_id'') (optProp ?x ''id''))"
    by (simp add: nullish_def getProp_def)
  then have n: "normalizeTask ?x = None"
    using normalizeTask_result [of ?x, THEN conjunct1] by blast
  have a: "jsString (JArr [JStr ''a'', JNull, JNum ''3'']) = Some ''a,,3''"
    by code_simp
  show ?thesis
    using n a normalizeTask_examples(1,2,3) by (intro conjI)
qed

section \<open>An empty outbox\<close>

text \<open>
  C8. A pass over an empty outbox returns the world as it found it: the outbox, the
  identity map and the cache are unchanged, and no event (so no network call) is added.
\<close>

theorem syncNow_empty_outbox:
  "outbox w = [] \<Longrightarrow> syncNow api onLine w = w"
  by (simp add: syncNow_def sortedOps_def getOutbox_def)

theorem syncNow_empty_outbox_witness:
  "outbox idleWorld = []
   \<and> syncNow exServer True idleWorld = idleWorld
   \<and> calls (trace (syncNow exServer True idleWorld)) = []"
proof -
  have o: "outbox idleWorld = []" by (simp add: idleWorld_def)
  have "syncNow exServer True idleWorld = idleWorld"
    using o by (rule syncNow_empty_outbox)
  moreover have "calls (trace idleWorld) = []" by (simp add: idleWorld_def)
  ultimately show ?thesis using o by simp
qed

section \<open>The completion event\<close>

lemma exWorld_runsToEnd: "runsToEnd exServer True exWorld"
  by code_simp

lemma exWorld_down: "\<not> runsToEnd downServer True exWorld"
  by code_simp

text \<open>
  C9. A pass dispatches \<open>sync-complete\<close> once, as its last event, when it reaches the
  end of the three loops, and not at all otherwise: not when it is offline, not when
  a record of the create, update or delete loop fails. (A pass that finds the outbox
  empty returns before the loops and dispatches nothing either.)
\<close>

theorem completion_event:
  "dispatched (emitted w (syncNow api onLine w)) =
     (if runsToEnd api onLine w then [''sync-complete''] else [])
   \<and> (runsToEnd api onLine w \<longrightarrow>
        (\<exists>es. emitted w (syncNow api onLine w) = es @ [Dispatch ''sync-complete'']))
   \<and> (\<not> onLine \<longrightarrow> dispatched (emitted w (syncNow api onLine w)) = [])
   \<and> (outbox w = [] \<longrightarrow> dispatched (emitted w (syncNow api onLine w)) = [])
   \<and> (\<forall>w'. forEach (createOne api) (creates (sortedOps w)) w = Inl w' \<longrightarrow>
        dispatched (emitted w (syncNow api onLine w)) = [])
   \<and> (\<forall>w1 w'. forEach (createOne api) (creates (sortedOps w)) w = Inr w1 \<and>
        forEach (updateOne api) (updates (sortedOps w)) w1 = Inl w' \<longrightarrow>
        dispatched (emitted w (syncNow api onLine w)) = [])
   \<and> (\<forall>w1 w2 w'. forEach (createOne api) (creates (sortedOps w)) w = Inr w1 \<and>
        forEach (updateOne api) (updates (sortedOps w)) w1 = Inr w2 \<and>
        forEach (deleteOne api) (deletes (sortedOps w)) w2 = Inl w' \<longrightarrow>
        dispatched (emitted w (syncNow api onLine w)) = [])"
proof -
  from syncNow_shape [of api onLine w] obtain es1 es2 es3 fin where
    tr: "trace (syncNow api onLine w) = trace w @ es1 @ es2 @ es3 @ fin"
    and d: "dispatched es1 = []" "dispatched es2 = []" "dispatched es3 = []"
    and fin: "fin = (if runsToEnd api onLine w then [Dispatch ''sync-complete''] else [])"
    by blast
  have em: "emitted w (syncNow api onLine w) = es1 @ es2 @ es3 @ fin"
    using tr by simp
  have main: "dispatched (emitted w (syncNow api onLine w)) =
     (if runsToEnd api onLine w then [''sync-complete''] else [])"
    using em d fin by simp
  have last: "runsToEnd api onLine w \<longrightarrow>
        (\<exists>es. emitted w (syncNow api onLine w) = es @ [Dispatch ''sync-complete''])"
  proof
    assume "runsToEnd api onLine w"
    then have "emitted w (syncNow api onLine w) = (es1 @ es2 @ es3) @ [Dispatch ''sync-complete'']"
      using em fin by simp
    then show "\<exists>es. emitted w (syncNow api onLine w) = es @ [Dispatch ''sync-complete'']"
      by blast
  qed
  have off: "\<not> onLine \<longrightarrow> \<not> runsToEnd api onLine w"
    by (simp add: runsToEnd_def)
  have empty: "outbox w = [] \<longrightarrow> \<not> runsToEnd api onLine w"
    by (simp add: runsToEnd_def sortedOps_def getOutbox_def)
  have cr: "\<forall>w'. forEach (createOne api) (creates (sortedOps w)) w = Inl w' \<longrightarrow>
        \<not> runsToEnd api onLine w"
    by (simp add: runsToEnd_def)
  have up: "\<forall>w1 w'. forEach (createOne api) (creates (sortedOps w)) w = Inr w1 \<and>
        forEach (updateOne api) (updates (sortedOps w)) w1 = Inl w' \<longrightarrow>
        \<not> runsToEnd api onLine w"
    by (simp add: runsToEnd_def)
  have de: "\<forall>w1 w2 w'. forEach (createOne api) (creates (sortedOps w)) w = Inr w1 \<and>
        forEach (updateOne api) (updates (sortedOps w)) w1 = Inr w2 \<and>
        forEach (deleteOne api) (deletes (sortedOps w)) w2 = Inl w' \<longrightarrow>
        \<not> runsToEnd api onLine w"
    by (simp add: runsToEnd_def)
  show ?thesis
    unfolding main using last off empty cr up de by auto
qed

theorem completion_event_witness:
  "runsToEnd exServer True exWorld
   \<and> dispatched (emitted exWorld (syncNow exServer True exWorld)) = [''sync-complete'']
   \<and> dispatched (emitted exWorld (syncNow exServer False exWorld)) = []
   \<and> \<not> runsToEnd downServer True exWorld
   \<and> dispatched (emitted exWorld (syncNow downServer True exWorld)) = []
   \<and> dispatched (emitted idleWorld (syncNow exServer True idleWorld)) = []"
proof -
  have idle: "\<not> runsToEnd exServer True idleWorld"
    by (simp add: runsToEnd_def sortedOps_def getOutbox_def idleWorld_def)
  have off: "\<not> runsToEnd exServer False exWorld"
    by (simp add: runsToEnd_def)
  have "dispatched (emitted exWorld (syncNow exServer True exWorld)) = [''sync-complete'']"
    using completion_event [of exWorld exServer True, THEN conjunct1] exWorld_runsToEnd
    by simp
  moreover have "dispatched (emitted exWorld (syncNow exServer False exWorld)) = []"
    using completion_event [of exWorld exServer False, THEN conjunct1] off by simp
  moreover have "dispatched (emitted exWorld (syncNow downServer True exWorld)) = []"
    using completion_event [of exWorld downServer True, THEN conjunct1] exWorld_down by simp
  moreover have "dispatched (emitted idleWorld (syncNow exServer True idleWorld)) = []"
    using completion_event [of idleWorld exServer True, THEN conjunct1] idle by simp
  ultimately show ?thesis
    using exWorld_runsToEnd exWorld_down by simp
qed

section \<open>What a replayed create sends\<close>

text \<open>
  C10. Every POST of a pass goes to \<open>/tasks\<close> with a body of exactly three properties,
  \<open>title\<close>, \<open>description\<close> and \<open>status\<close>, whose values are those of the payload of a
  queued create record; nothing else that the payload carries is in the body.
\<close>

theorem create_request_body:
  "\<forall>r\<in>set (calls (emitted w (syncNow api onLine w))). \<forall>u b. r = POST u b \<longrightarrow>
     u = ''/tasks''
     \<and> map fst b = [''title'', ''description'', ''status'']
     \<and> (\<exists>p\<in>set (outbox w). op p = Create \<and>
          (\<exists>d. data p = Some d \<and>
            b = [(''title'', getProp d ''title''),
                 (''description'', getProp d ''description''),
                 (''status'', getProp d ''status'')]))"
proof (intro ballI allI impI)
  fix r u b
  assume r: "r \<in> set (calls (emitted w (syncNow api onLine w)))" and post: "r = POST u b"
  from syncNow_shape [of api onLine w] obtain es1 es2 es3 fin where
    tr: "trace (syncNow api onLine w) = trace w @ es1 @ es2 @ es3 @ fin"
    and c1: "\<forall>r\<in>set (calls es1). \<exists>p\<in>set (creates (sortedOps w)).
            \<exists>d. data p = Some d \<and> r = POST ''/tasks'' (requestBody d)"
    and c2: "\<forall>r\<in>set (calls es2). verbPhase r = 1"
    and c3: "\<forall>r\<in>set (calls es3). verbPhase r = 2"
    and fin: "fin = (if runsToEnd api onLine w then [Dispatch ''sync-complete''] else [])"
    by blast
  have em: "emitted w (syncNow api onLine w) = es1 @ es2 @ es3 @ fin"
    using tr by simp
  have "calls fin = []" using fin by simp
  then have "r \<in> set (calls es1) \<or> r \<in> set (calls es2) \<or> r \<in> set (calls es3)"
    using r em by auto
  moreover have "r \<notin> set (calls es2)" using c2 post by auto
  moreover have "r \<notin> set (calls es3)" using c3 post by auto
  ultimately have "r \<in> set (calls es1)" by blast
  with c1 obtain p d where
    p: "p \<in> set (creates (sortedOps w))" "data p = Some d" "r = POST ''/tasks'' (requestBody d)"
    by blast
  have "p \<in> set (outbox w)" "op p = Create"
    using p(1) by (simp_all add: creates_def sortedOps_def getOutbox_def)
  then show "u = ''/tasks''
     \<and> map fst b = [''title'', ''description'', ''status'']
     \<and> (\<exists>p\<in>set (outbox w). op p = Create \<and>
          (\<exists>d. data p = Some d \<and>
            b = [(''title'', getProp d ''title''),
                 (''description'', getProp d ''description''),
                 (''status'', getProp d ''status'')]))"
    using p(2,3) post by (auto simp add: requestBody_def)
qed

theorem create_request_body_witness:
  "calls (emitted exWorld (syncNow exServer True exWorld)) =
     [POST ''/tasks'' [(''title'', JStr ''A''), (''description'', JStr []),
                       (''status'', JStr ''Pendiente'')],
      PUT ''/tasks/srv-9'' [(''title'', JStr ''A2''), (''description'', JStr []),
                            (''status'', JStr ''En Progreso'')]]
   \<and> map fst (the (data opCreate)) =
       [''_id'', ''title'', ''description'', ''status'', ''clienteId'', ''estimatedTime'']
   \<and> map fst [(''title'', JStr ''A''), (''description'', JStr []),
               (''status'', JStr ''Pendiente'')] = [''title'', ''description'', ''status'']
   \<and> opCreate \<in> set (outbox exWorld)"
proof -
  let ?b = "[(''title'', JStr ''A''), (''description'', JStr []), (''status'', JStr ''Pendiente'')]"
  have e: "emitted exWorld (syncNow exServer True exWorld) = trace (syncNow exServer True exWorld)"
    by (simp add: emitted_def exWorld_def)
  have c: "calls (emitted exWorld (syncNow exServer True exWorld)) =
     [POST ''/tasks'' ?b,
      PUT ''/tasks/srv-9'' [(''title'', JStr ''A2''), (''description'', JStr []),
                            (''status'', JStr ''En Progreso'')]]"
    by (simp add: e exWorld_run)
  have "POST ''/tasks'' ?b \<in> set (calls (emitted exWorld (syncNow exServer True exWorld)))"
    by (simp add: c)
  from create_request_body [of exWorld exServer True, THEN bspec, OF this]
  have "map fst ?b = [''title'', ''description'', ''status'']" by blast
  moreover have "map fst (the (data opCreate)) =
       [''_id'', ''title'', ''description'', ''status'', ''clienteId'', ''estimatedTime'']"
    by (simp add: opCreate_def)
  moreover have "opCreate \<in> set (outbox exWorld)" by (simp add: exWorld_def)
  ultimately show ?thesis using c by simp
qed

end
